theory Spec2Isabelle
  imports Complex_Main "HOL-Library.Sublist"
begin

section \<open>Values and records of the vendor qualification pipeline\<close>

text \<open>
  Python floats are modelled by real numbers, so rounding and infinities are outside
  the model; the one special value kept is the missing-value marker NaN of a
  DataFrame cell.  Python strings are modelled by \<open>string\<close>: a character is a
  code point below 256, and white space and letter case are those of that range.

  Library code that the repository calls but does not contain (scikit-learn's
  vectoriser and cosine similarity, the regular expression search behind
  \<open>Series.str.contains\<close>, \<open>json.loads\<close>, \<open>str\<close> and \<open>float\<close>)
  enters every definition as an explicit parameter.
\<close>

datatype py_error = IndexError | TypeError | AttributeError | RegexError | HTTP_500

text \<open>A dynamically typed value: a parsed JSON document or the content of a cell.\<close>

datatype pyval =
    PNone
  | PNaN
  | PBool bool
  | PNum real
  | PStr string
  | PList "pyval list"
  | PDict "(string \<times> pyval) list"

text \<open>The \<open>rating\<close> column read from the CSV file: a number, NaN, or text.\<close>

datatype rating_cell = RNum real | RNaN | RStr string

text \<open>The columns every table carries for a product.\<close>

record product_columns =
  product_name :: string
  seller :: string
  main_category :: "string option"
  rating :: rating_cell

text \<open>A row of \<open>DataLoader.data\<close>: the raw \<open>Features\<close> cell is text or missing.\<close>

record product_record = product_columns +
  Features :: "string option"

text \<open>A row of \<open>DataLoader.preprocessed_dataset\<close>.\<close>

record feature_row = product_columns +
  Features_Category :: pyval
  Feature_name :: pyval
  Feature_description :: pyval
  Feature_percent :: pyval
  Feature_review :: pyval

text \<open>The entry appended to a vendor's \<open>matching_features\<close>.\<close>

record matched_feature =
  feature_category :: pyval
  feature_name :: pyval
  feature_description :: pyval
  feature_percent :: pyval
  feature_review_count :: pyval
  matched_capability :: string
  similarity_score :: real

text \<open>The match dictionary built by \<open>find_matching_features\<close>.\<close>

record feature_match = matched_feature +
  m_product_name :: string
  m_vendor :: string
  m_main_category :: "string option"
  feature_text :: string

text \<open>
  A value of the \<open>vendors\<close> dictionary.  \<open>v_rating\<close> is \<open>None\<close> until the
  endpoint stores the key \<open>rating\<close>.  \<open>matched_capabilities\<close> is a Python set,
  turned into a list of unspecified order at the end of the aggregation.
\<close>

record vendor_data =
  v_product_name :: string
  v_vendor :: string
  v_main_category :: "string option"
  matching_features :: "matched_feature list"
  matched_capabilities :: "string set"
  max_similarity_score :: real
  avg_similarity_score :: real
  total_matches :: nat
  v_rating :: "rating_cell option"

text \<open>An insertion-ordered Python dictionary: keys are distinct, new keys go last.\<close>

type_synonym 'v py_dict = "(string \<times> 'v) list"

text \<open>An element of the list returned by \<open>rank_vendors\<close>.\<close>

record ranked_vendor =
  vendor_key :: string
  r_product_name :: string
  r_vendor :: string
  r_main_category :: "string option"
  rank_score :: real
  r_max_similarity_score :: real
  r_avg_similarity_score :: real
  r_total_matches :: nat
  r_matched_capabilities :: "string set"
  r_matching_features :: "matched_feature list"
  r_rating :: rating_cell

section \<open>\<open>ranking/vendor_ranker.py\<close>\<close>

record vendor_ranker =
  feature_weight :: real
  rating_weight :: real

text \<open>\<open>max(0.0, min(1.0, x))\<close>\<close>

definition clamp01 :: "real \<Rightarrow> real" where
  "clamp01 x = max 0 (min 1 x)"

text \<open>
  \<open>rating = vendor_data.get('rating', 0.0)\<close>, converted with \<open>float\<close> when it is a
  string (a \<open>ValueError\<close> gives 0).  The result \<open>None\<close> stands for NaN.
\<close>

definition float_rating :: "(string \<Rightarrow> real option) \<Rightarrow> rating_cell option \<Rightarrow> real option" where
  "float_rating py_float r =
     (case r of
        None \<Rightarrow> Some 0
      | Some (RNum x) \<Rightarrow> Some x
      | Some RNaN \<Rightarrow> None
      | Some (RStr s) \<Rightarrow> (case py_float s of Some x \<Rightarrow> Some x | None \<Rightarrow> Some 0))"

text \<open>
  \<open>rating / 5.0 if rating > 0 else 0.0\<close>, then clamped.  A comparison with NaN is
  false.
\<close>

definition normalized_rating :: "real option \<Rightarrow> real" where
  "normalized_rating r =
     clamp01 (case r of Some x \<Rightarrow> (if x > 0 then x / 5 else 0) | None \<Rightarrow> 0)"

definition compute_rank_score ::
  "vendor_ranker \<Rightarrow> (string \<Rightarrow> real option) \<Rightarrow> vendor_data \<Rightarrow> real option \<Rightarrow> real" where
  "compute_rank_score self py_float vendor similarity =
     (let sim_score = (case similarity of Some s \<Rightarrow> s | None \<Rightarrow> avg_similarity_score vendor);
          sim_score = clamp01 sim_score;
          normalized = normalized_rating (float_rating py_float (v_rating vendor))
      in feature_weight self * sim_score + rating_weight self * normalized)"

text \<open>The body of the loop of \<open>rank_vendors\<close> over \<open>vendors_dict.items()\<close>.\<close>

definition vendor_result ::
  "vendor_ranker \<Rightarrow> (string \<Rightarrow> real option) \<Rightarrow> string \<times> vendor_data \<Rightarrow> ranked_vendor" where
  "vendor_result self py_float item =
     (case item of (key, vendor) \<Rightarrow>
        \<lparr> vendor_key = key,
          r_product_name = v_product_name vendor,
          r_vendor = v_vendor vendor,
          r_main_category = v_main_category vendor,
          rank_score = compute_rank_score self py_float vendor None,
          r_max_similarity_score = max_similarity_score vendor,
          r_avg_similarity_score = avg_similarity_score vendor,
          r_total_matches = total_matches vendor,
          r_matched_capabilities = matched_capabilities vendor,
          r_matching_features = matching_features vendor,
          r_rating = (case v_rating vendor of Some r \<Rightarrow> r | None \<Rightarrow> RNum 0) \<rparr>)"

text \<open>
  \<open>xs.sort(key=f, reverse=True)\<close>: Python reverses the list, sorts it stably in
  ascending order and reverses the result.
\<close>

definition py_sort_desc :: "('a \<Rightarrow> real) \<Rightarrow> 'a list \<Rightarrow> 'a list" where
  "py_sort_desc f xs = rev (sort_key f (rev xs))"

text \<open>
  The slice \<open>xs[:n]\<close>: \<open>None\<close> keeps everything, a negative bound counts from the
  end.
\<close>

definition py_slice_to :: "'a list \<Rightarrow> int option \<Rightarrow> 'a list" where
  "py_slice_to xs n =
     (case n of
        None \<Rightarrow> xs
      | Some k \<Rightarrow> (if k < 0 then take (nat (int (length xs) + k)) xs else take (nat k) xs))"

definition rank_vendors ::
  "vendor_ranker \<Rightarrow> (string \<Rightarrow> real option) \<Rightarrow> vendor_data py_dict \<Rightarrow> int option \<Rightarrow> ranked_vendor list" where
  "rank_vendors self py_float vendors_dict top_n =
     (if vendors_dict = [] then []
      else py_slice_to (py_sort_desc rank_score (map (vendor_result self py_float) vendors_dict)) top_n)"

section \<open>\<open>similarity/feature_matcher.py\<close>\<close>

subsection \<open>Python built-ins on strings and values\<close>

text \<open>Truth value of an object in a condition.\<close>

fun py_truthy :: "pyval \<Rightarrow> bool" where
  "py_truthy PNone = False"
| "py_truthy PNaN = True"
| "py_truthy (PBool b) = b"
| "py_truthy (PNum x) = (x \<noteq> 0)"
| "py_truthy (PStr s) = (s \<noteq> [])"
| "py_truthy (PList xs) = (xs \<noteq> [])"
| "py_truthy (PDict kvs) = (kvs \<noteq> [])"

text \<open>
  \<open>str.isspace\<close> on one character: the codes 9 to 13 and 28 to 32, the next-line
  control 133 and the no-break space 160.  \<open>str.strip\<close> removes these at both
  ends.
\<close>

definition is_space :: "char \<Rightarrow> bool" where
  "is_space c =
     (let n = (of_char c :: nat)
      in (9 \<le> n \<and> n \<le> 13) \<or> (28 \<le> n \<and> n \<le> 32) \<or> n = 133 \<or> n = 160)"

definition py_strip :: "string \<Rightarrow> string" where
  "py_strip s = rev (dropWhile is_space (rev (dropWhile is_space s)))"

text \<open>
  An upper-case letter (codes 65 to 90, and 192 to 222 without the multiplication
  sign 215) becomes the letter 32 codes further, which is the same code with bit 5
  set.
\<close>

definition lower_char :: "char \<Rightarrow> char" where
  "lower_char c =
     (let n = (of_char c :: nat)
      in if (65 \<le> n \<and> n \<le> 90) \<or> (192 \<le> n \<and> n \<le> 222 \<and> n \<noteq> 215)
         then Char (digit0 c) (digit1 c) (digit2 c) (digit3 c) (digit4 c) True (digit6 c) (digit7 c)
         else c)"

text \<open>\<open>str.lower\<close>\<close>

definition py_lower :: "string \<Rightarrow> string" where
  "py_lower s = map lower_char s"

subsection \<open>\<open>FeatureMatcher\<close>\<close>

text \<open>
  The matcher object.  Its vectoriser is refitted by every call of
  \<open>fit_transform\<close> and carries nothing from one call to the next, so the only
  state is the threshold.
\<close>

record feature_matcher =
  similarity_threshold :: real

text \<open>
  The two scikit-learn calls inside the \<open>try\<close> block of
  \<open>compute_similarity_matrix\<close>: given \<open>all_texts\<close> and the number of
  capabilities at its front, the cosine similarity matrix, or \<open>None\<close> when an
  exception is raised.
\<close>

type_synonym similarity_backend = "string list \<Rightarrow> nat \<Rightarrow> real list list option"

definition prepare_feature_text :: "(pyval \<Rightarrow> string) \<Rightarrow> pyval \<Rightarrow> pyval \<Rightarrow> string" where
  "prepare_feature_text py_str fname fdescription =
     (let name = (if py_truthy fname \<and> py_str fname \<noteq> ''nan'' then py_str fname else []);
          desc = (if py_truthy fdescription \<and> py_str fdescription \<noteq> ''nan''
                  then py_str fdescription else []);
          combined_text = py_strip (name @ '' '' @ name @ '' '' @ desc)
      in if combined_text \<noteq> [] then combined_text else ''unknown feature'')"

text \<open>\<open>ndarray.size\<close> of a matrix given by its rows.\<close>

definition array_size :: "real list list \<Rightarrow> nat" where
  "array_size M = sum_list (map length M)"

text \<open>\<open>np.zeros((n, m))\<close>\<close>

definition np_zeros :: "nat \<Rightarrow> nat \<Rightarrow> real list list" where
  "np_zeros n m = replicate n (replicate m 0)"

text \<open>\<open>M[i, j]\<close> with non-negative indices.\<close>

definition matrix_at :: "real list list \<Rightarrow> nat \<Rightarrow> nat \<Rightarrow> py_error + real" where
  "matrix_at M i j =
     (if i < length M \<and> j < length (M ! i) then Inr (M ! i ! j) else Inl IndexError)"

definition compute_similarity_matrix ::
  "similarity_backend \<Rightarrow> string list \<Rightarrow> string list \<Rightarrow> real list list" where
  "compute_similarity_matrix backend capabilities feature_texts =
     (if capabilities = [] \<or> feature_texts = [] then []
      else (case backend (capabilities @ feature_texts) (length capabilities) of
              Some similarity_matrix \<Rightarrow> similarity_matrix
            | None \<Rightarrow> np_zeros (length capabilities) (length feature_texts)))"

definition build_match :: "feature_row \<Rightarrow> string \<Rightarrow> real \<Rightarrow> string \<Rightarrow> feature_match" where
  "build_match feature_row capability score text =
     \<lparr> feature_category = Features_Category feature_row,
       feature_name = Feature_name feature_row,
       feature_description = Feature_description feature_row,
       feature_percent = Feature_percent feature_row,
       feature_review_count = Feature_review feature_row,
       matched_capability = capability,
       similarity_score = score,
       m_product_name = product_name feature_row,
       m_vendor = seller feature_row,
       m_main_category = main_category feature_row,
       feature_text = text \<rparr>"

text \<open>
  The inner loop of \<open>find_matching_features\<close> over the rows, from index
  \<open>feat_idx\<close> on; each row comes with its prepared text.
\<close>

fun feature_loop ::
  "real \<Rightarrow> real list list \<Rightarrow> nat \<Rightarrow> string \<Rightarrow> nat \<Rightarrow> (feature_row \<times> string) list
     \<Rightarrow> py_error + feature_match list" where
  "feature_loop threshold M cap_idx capability feat_idx [] = Inr []"
| "feature_loop threshold M cap_idx capability feat_idx ((feature_row, text) # rest) =
     (case matrix_at M cap_idx feat_idx of
        Inl e \<Rightarrow> Inl e
      | Inr similarity \<Rightarrow>
          (case feature_loop threshold M cap_idx capability (Suc feat_idx) rest of
             Inl e \<Rightarrow> Inl e
           | Inr matches \<Rightarrow>
               Inr (if similarity \<ge> threshold
                    then build_match feature_row capability similarity text # matches
                    else matches)))"

text \<open>The outer loop over the capabilities, from index \<open>cap_idx\<close> on.\<close>

fun capability_loop ::
  "real \<Rightarrow> real list list \<Rightarrow> (feature_row \<times> string) list \<Rightarrow> nat \<Rightarrow> string list
     \<Rightarrow> py_error + feature_match list" where
  "capability_loop threshold M rows cap_idx [] = Inr []"
| "capability_loop threshold M rows cap_idx (capability # rest) =
     (case feature_loop threshold M cap_idx capability 0 rows of
        Inl e \<Rightarrow> Inl e
      | Inr matches \<Rightarrow>
          (case capability_loop threshold M rows (Suc cap_idx) rest of
             Inl e \<Rightarrow> Inl e
           | Inr later \<Rightarrow> Inr (matches @ later)))"

definition feature_texts_of :: "(pyval \<Rightarrow> string) \<Rightarrow> feature_row list \<Rightarrow> string list" where
  "feature_texts_of py_str features_df =
     map (\<lambda>row. prepare_feature_text py_str (Feature_name row) (Feature_description row)) features_df"

definition find_matching_features ::
  "similarity_backend \<Rightarrow> (pyval \<Rightarrow> string) \<Rightarrow> feature_matcher \<Rightarrow> string list \<Rightarrow> feature_row list
     \<Rightarrow> py_error + feature_match list" where
  "find_matching_features backend py_str self capabilities features_df =
     (if features_df = [] \<or> capabilities = [] then Inr []
      else
        (let feature_texts = feature_texts_of py_str features_df;
             similarity_matrix = compute_similarity_matrix backend capabilities feature_texts
         in if array_size similarity_matrix = 0 then Inr []
            else
              (case capability_loop (similarity_threshold self) similarity_matrix
                      (zip features_df feature_texts) 0 capabilities of
                 Inl e \<Rightarrow> Inl e
               | Inr matches \<Rightarrow> Inr (py_sort_desc similarity_score matches))))"

subsection \<open>Aggregation per vendor\<close>

text \<open>The f-string \<open>{product_name}_{vendor}\<close>.\<close>

definition vendor_key_of :: "feature_match \<Rightarrow> string" where
  "vendor_key_of m = m_product_name m @ ''_'' @ m_vendor m"

text \<open>The dictionary stored under a key that is not yet in \<open>vendors\<close>.\<close>

definition new_vendor :: "feature_match \<Rightarrow> vendor_data" where
  "new_vendor m =
     \<lparr> v_product_name = m_product_name m,
       v_vendor = m_vendor m,
       v_main_category = m_main_category m,
       matching_features = [],
       matched_capabilities = {},
       max_similarity_score = 0,
       avg_similarity_score = 0,
       total_matches = 0,
       v_rating = None \<rparr>"

definition feature_entry :: "feature_match \<Rightarrow> matched_feature" where
  "feature_entry m =
     \<lparr> feature_category = feature_category m,
       feature_name = feature_name m,
       feature_description = feature_description m,
       feature_percent = feature_percent m,
       feature_review_count = feature_review_count m,
       matched_capability = matched_capability m,
       similarity_score = similarity_score m \<rparr>"

text \<open>Appending the match to a vendor and updating its statistics.\<close>

definition record_match :: "feature_match \<Rightarrow> vendor_data \<Rightarrow> vendor_data" where
  "record_match m v =
     v \<lparr> matching_features := matching_features v @ [feature_entry m],
         matched_capabilities := insert (matched_capability m) (matched_capabilities v),
         max_similarity_score := max (max_similarity_score v) (similarity_score m),
         total_matches := total_matches v + 1 \<rparr>"

text \<open>\<open>d[key] = f(d[key])\<close> for a key of the dictionary: the position is kept.\<close>

definition dict_update :: "string \<Rightarrow> ('v \<Rightarrow> 'v) \<Rightarrow> 'v py_dict \<Rightarrow> 'v py_dict" where
  "dict_update key f d = map (\<lambda>(k, v). if k = key then (k, f v) else (k, v)) d"

text \<open>One iteration of the loop \<open>for match in matches\<close>.\<close>

definition add_match :: "vendor_data py_dict \<Rightarrow> feature_match \<Rightarrow> vendor_data py_dict" where
  "add_match vendors m =
     (let key = vendor_key_of m;
          vendors' = (if key \<notin> fst ` set vendors then vendors @ [(key, new_vendor m)] else vendors)
      in dict_update key (record_match m) vendors')"

text \<open>The second loop, over \<open>vendors.values()\<close>.\<close>

definition set_average :: "vendor_data \<Rightarrow> vendor_data" where
  "set_average v =
     (if total_matches v > 0
      then v \<lparr> avg_similarity_score :=
                 sum_list (map similarity_score (matching_features v)) / real (total_matches v) \<rparr>
      else v)"

definition select_matching_vendors :: "feature_match list \<Rightarrow> vendor_data py_dict" where
  "select_matching_vendors matches =
     map (\<lambda>(k, v). (k, set_average v)) (foldl add_match [] matches)"

subsection \<open>Category filter and the main method\<close>

text \<open>
  \<open>Series.str.contains(pat, case=False, na=False)\<close> leaves \<open>regex\<close> at its
  default, true: the pattern is compiled by \<open>re.compile(pat, re.IGNORECASE)\<close> and
  a cell is tested by \<open>search(cell) is not None\<close>.

  The characters with a special meaning in a pattern are the following; the last
  one is the backslash.
\<close>

definition regex_special :: "char \<Rightarrow> bool" where
  "regex_special c \<longleftrightarrow> c \<in> set ''.^$*+?{}[]|()'' \<or> c = CHR 0x5C"

text \<open>
  In a pattern without special characters every character stands for itself and,
  under \<open>IGNORECASE\<close>, for its other case.  \<open>match_here\<close> tries the pattern at
  the start of the text.
\<close>

fun match_here :: "string \<Rightarrow> string \<Rightarrow> bool" where
  "match_here [] cs = True"
| "match_here (p # ps) [] = False"
| "match_here (p # ps) (c # cs) = (lower_char p = lower_char c \<and> match_here ps cs)"

text \<open>\<open>search\<close> tries every position of the text in turn.\<close>

fun literal_search :: "string \<Rightarrow> string \<Rightarrow> bool" where
  "literal_search pat [] = match_here pat []"
| "literal_search pat (c # cs) = (match_here pat (c # cs) \<or> literal_search pat cs)"

text \<open>
  The compilation of the patterns that do have special characters stays a
  parameter: an error, or the compiled pattern as a predicate on the text.
\<close>

type_synonym regex_compiler = "string \<Rightarrow> py_error + (string \<Rightarrow> bool)"

definition compile_ignorecase :: "regex_compiler \<Rightarrow> string \<Rightarrow> py_error + (string \<Rightarrow> bool)" where
  "compile_ignorecase re_compile pat =
     (if list_ex regex_special pat then re_compile pat else Inr (literal_search pat))"

text \<open>
  The accessor \<open>.str\<close> raises for a column that is not of text: a column with
  rows of which none holds a value has the dtype float64.
\<close>

definition str_accessor_fails :: "string option list \<Rightarrow> bool" where
  "str_accessor_fails column \<longleftrightarrow> column \<noteq> [] \<and> filter (\<lambda>cell. cell \<noteq> None) column = []"

text \<open>The mask: the accessor is reached first, then the pattern is compiled.\<close>

definition str_contains :: "regex_compiler \<Rightarrow> string \<Rightarrow> string option list \<Rightarrow> py_error + bool list" where
  "str_contains re_compile pat column =
     (if str_accessor_fails column then Inl AttributeError
      else (case compile_ignorecase re_compile pat of
              Inl e \<Rightarrow> Inl e
            | Inr search \<Rightarrow>
                Inr (map (\<lambda>cell. case cell of None \<Rightarrow> False | Some c \<Rightarrow> search c) column)))"

text \<open>\<open>dataframe[mask]\<close>\<close>

definition select_rows :: "'a list \<Rightarrow> bool list \<Rightarrow> 'a list" where
  "select_rows dataframe flags = map fst (filter snd (zip dataframe flags))"

text \<open>
  The rows selected by the mask \<open>str.contains(software_category, case=False,
  na=False)\<close> over the column \<open>main_category\<close>, or the whole frame.
\<close>

definition category_filter ::
  "regex_compiler \<Rightarrow> feature_row list \<Rightarrow> string \<Rightarrow> py_error + feature_row list" where
  "category_filter re_compile dataframe software_category =
     (if software_category \<noteq> [] \<and> py_lower software_category \<noteq> ''all''
      then (case str_contains re_compile software_category (map main_category dataframe) of
              Inl e \<Rightarrow> Inl e
            | Inr flags \<Rightarrow> Inr (select_rows dataframe flags))
      else Inr dataframe)"

record matching_results =
  matching_vendors :: "vendor_data py_dict"
  total_vendors :: nat
  total_feature_matches :: nat
  capabilities_searched :: "string list"
  category_searched :: string
  threshold_searched :: real
  raw_matches :: "feature_match list option"

definition filter_vendors_by_category_and_capabilities ::
  "regex_compiler \<Rightarrow> similarity_backend \<Rightarrow> (pyval \<Rightarrow> string) \<Rightarrow> feature_matcher
     \<Rightarrow> feature_row list \<Rightarrow> string \<Rightarrow> string list \<Rightarrow> py_error + matching_results" where
  "filter_vendors_by_category_and_capabilities re_compile backend py_str self dataframe
       software_category capabilities =
     (case category_filter re_compile dataframe software_category of
        Inl e \<Rightarrow> Inl e
      | Inr category_filtered \<Rightarrow>
          if category_filtered = []
          then Inr \<lparr> matching_vendors = [], total_vendors = 0, total_feature_matches = 0,
                     capabilities_searched = capabilities, category_searched = software_category,
                     threshold_searched = similarity_threshold self, raw_matches = None \<rparr>
          else (case find_matching_features backend py_str self capabilities category_filtered of
                  Inl e \<Rightarrow> Inl e
                | Inr matches \<Rightarrow>
                    (let vendors = select_matching_vendors matches
                     in Inr \<lparr> matching_vendors = vendors, total_vendors = length vendors,
                              total_feature_matches = length matches,
                              capabilities_searched = capabilities,
                              category_searched = software_category,
                              threshold_searched = similarity_threshold self,
                              raw_matches = Some matches \<rparr>)))"

text \<open>Case-insensitive substring containment, the reading the specification gives.\<close>

fun is_substring :: "string \<Rightarrow> string \<Rightarrow> bool" where
  "is_substring pat [] = (pat = [])"
| "is_substring pat (c # cs) = (prefix pat (c # cs) \<or> is_substring pat cs)"

definition contains_ignoring_case :: "string \<Rightarrow> string \<Rightarrow> bool" where
  "contains_ignoring_case pat text = is_substring (py_lower pat) (py_lower text)"

section \<open>\<open>data_processing/data_loader.py\<close>\<close>

text \<open>
  \<open>safe_json_parse\<close>: a missing cell and text that \<open>json.loads\<close> rejects
  (\<open>None\<close> of the parameter) both give \<open>None\<close>.
\<close>

definition safe_json_parse :: "(string \<Rightarrow> pyval option) \<Rightarrow> string option \<Rightarrow> pyval" where
  "safe_json_parse json_loads x =
     (case x of
        None \<Rightarrow> PNone
      | Some s \<Rightarrow> (case json_loads s of Some v \<Rightarrow> v | None \<Rightarrow> PNone))"

text \<open>\<open>Series.notna\<close> on one cell.\<close>

definition notna :: "pyval \<Rightarrow> bool" where
  "notna v = (v \<noteq> PNone \<and> v \<noteq> PNaN)"

text \<open>
  What \<open>DataFrame.explode\<close> puts in place of one cell: the elements of a
  non-empty list-like (for a dictionary its keys, as pandas 1.2 and later do), a
  single NaN for an empty list-like, and a scalar unchanged.
\<close>

fun explode_cell :: "pyval \<Rightarrow> pyval list" where
  "explode_cell (PList xs) = (if xs = [] then [PNaN] else xs)"
| "explode_cell (PDict kvs) = (if kvs = [] then [PNaN] else map (\<lambda>kv. PStr (fst kv)) kvs)"
| "explode_cell v = [v]"

text \<open>\<open>x.get(key, default) if isinstance(x, dict) else default\<close>\<close>

definition get_or :: "pyval \<Rightarrow> string \<Rightarrow> pyval \<Rightarrow> pyval" where
  "get_or x key dflt =
     (case x of
        PDict kvs \<Rightarrow> (case map_of kvs key of Some v \<Rightarrow> v | None \<Rightarrow> dflt)
      | _ \<Rightarrow> dflt)"

definition make_row ::
  "'a product_columns_scheme \<Rightarrow> pyval \<Rightarrow> pyval \<Rightarrow> pyval \<Rightarrow> pyval \<Rightarrow> pyval \<Rightarrow> feature_row" where
  "make_row p category name description percent review =
     \<lparr> product_name = product_name p, seller = seller p, main_category = main_category p,
       rating = rating p,
       Features_Category = category, Feature_name = name, Feature_description = description,
       Feature_percent = percent, Feature_review = review \<rparr>"

text \<open>The row made from one element of an exploded \<open>Features_list\<close>.\<close>

definition feature_row_of :: "'a product_columns_scheme \<Rightarrow> pyval \<Rightarrow> pyval \<Rightarrow> feature_row" where
  "feature_row_of p category x =
     make_row p category
       (get_or x ''name'' (PStr []))
       (get_or x ''description'' (PStr []))
       (get_or x ''percent'' (PNum 0))
       (get_or x ''review'' (PNum 0))"

text \<open>
  The rows that one element of an exploded \<open>Features\<close> cell (a feature group)
  gives: its \<open>features\<close> list is exploded in turn.
\<close>

definition group_rows :: "'a product_columns_scheme \<Rightarrow> pyval \<Rightarrow> feature_row list" where
  "group_rows p g =
     map (feature_row_of p (get_or g ''Category'' PNone))
       (explode_cell (get_or g ''features'' (PList [])))"

definition preprocess_data :: "(string \<Rightarrow> pyval option) \<Rightarrow> product_record list \<Rightarrow> feature_row list" where
  "preprocess_data json_loads df =
     (let parsed = map (\<lambda>p. (p, safe_json_parse json_loads (Features p))) df;
          df_with_features = filter (\<lambda>(p, f). notna f) parsed
      in if df_with_features = []
         then map (\<lambda>p. make_row p PNone PNone PNone PNone PNone) df
         else concat (map (\<lambda>(p, f). concat (map (group_rows p) (explode_cell f)))
                        df_with_features))"

section \<open>\<open>api/app.py\<close>\<close>


record vendor_query =
  software_category :: string
  capabilities :: "string list"
  query_threshold :: "real option"
  top_n :: "int option"
  include_explanations :: "bool option"


text \<open>The module-level objects created at lines 33 and 34.\<close>

definition initial_matcher :: feature_matcher where
  "initial_matcher = \<lparr> similarity_threshold = 1 / 2 \<rparr>"

definition initial_ranker :: vendor_ranker where
  "initial_ranker = \<lparr> feature_weight = 7 / 10, rating_weight = 3 / 10 \<rparr>"










section \<open>Auxiliary notions for the proofs\<close>

text \<open>The matches of a list that belong to the vendor key \<open>k\<close>.\<close>

definition matches_of :: "string \<Rightarrow> feature_match list \<Rightarrow> feature_match list" where
  "matches_of k ms = filter (\<lambda>m. vendor_key_of m = k) ms"

text \<open>
  What the aggregation loop maintains for the entry of key \<open>k\<close> after the
  matches \<open>ms\<close>, and for the whole dictionary.
\<close>

definition entry_ok :: "feature_match list \<Rightarrow> string \<Rightarrow> vendor_data \<Rightarrow> bool" where
  "entry_ok ms k v \<longleftrightarrow>
     matches_of k ms \<noteq> [] \<and>
     matching_features v = map feature_entry (matches_of k ms) \<and>
     total_matches v = length (matches_of k ms) \<and>
     max_similarity_score v = Max (insert 0 (similarity_score ` set (matches_of k ms))) \<and>
     matched_capabilities v = matched_capability ` set (matches_of k ms)"

definition agg_inv :: "feature_match list \<Rightarrow> vendor_data py_dict \<Rightarrow> bool" where
  "agg_inv ms d \<longleftrightarrow>
     distinct (map fst d) \<and> fst ` set d = vendor_key_of ` set ms \<and>
     (\<forall>kv \<in> set d. entry_ok ms (fst kv) (snd kv))"

text \<open>
  The matches that the two loops of \<open>find_matching_features\<close> collect when every
  index is within the matrix.
\<close>

definition row_matches ::
  "real \<Rightarrow> real list list \<Rightarrow> nat \<Rightarrow> string \<Rightarrow> nat \<Rightarrow> (feature_row \<times> string) list \<Rightarrow> feature_match list" where
  "row_matches thr M i cap j rows =
     concat (map (\<lambda>(jj, rt). if thr \<le> M ! i ! jj then [build_match (fst rt) cap (M ! i ! jj) (snd rt)] else [])
               (enumerate j rows))"

definition all_matches ::
  "real \<Rightarrow> real list list \<Rightarrow> (feature_row \<times> string) list \<Rightarrow> nat \<Rightarrow> string list \<Rightarrow> feature_match list" where
  "all_matches thr M rows i caps =
     concat (map (\<lambda>(ii, cap). row_matches thr M ii cap 0 rows) (enumerate i caps))"

section \<open>Example inputs\<close>

definition example_vendor :: "string \<Rightarrow> real \<Rightarrow> real \<Rightarrow> vendor_data" where
  "example_vendor name avg stars =
     \<lparr> v_product_name = name, v_vendor = ''Acme'', v_main_category = Some ''CRM Software'',
       matching_features = [], matched_capabilities = {''Lead Management''},
       max_similarity_score = avg, avg_similarity_score = avg, total_matches = 1,
       v_rating = Some (RNum stars) \<rparr>"

definition example_vendors :: "vendor_data py_dict" where
  "example_vendors =
     [(''A_Acme'', example_vendor ''A'' (1 / 2) 4),
      (''B_Acme'', example_vendor ''B'' (4 / 5) 4),
      (''C_Acme'', example_vendor ''C'' (1 / 2) 4)]"

definition example_match :: "string \<Rightarrow> string \<Rightarrow> real \<Rightarrow> feature_match" where
  "example_match product fname score =
     \<lparr> feature_category = PStr ''Sales'', feature_name = PStr fname,
       feature_description = PStr [], feature_percent = PNum 90, feature_review_count = PNum 12,
       matched_capability = ''Lead Management'', similarity_score = score,
       m_product_name = product, m_vendor = ''Acme'', m_main_category = Some ''CRM Software'',
       feature_text = fname @ '' '' @ fname \<rparr>"

definition example_matches :: "feature_match list" where
  "example_matches =
     [example_match ''A'' ''Lead Management'' (4 / 5),
      example_match ''B'' ''Lead Scoring'' (7 / 10),
      example_match ''A'' ''Lead Routing'' (3 / 5)]"

definition example_aggregate :: vendor_data where
  "example_aggregate =
     \<lparr> v_product_name = ''A'', v_vendor = ''Acme'', v_main_category = Some ''CRM Software'',
       matching_features =
         [feature_entry (example_match ''A'' ''Lead Management'' (4 / 5)),
          feature_entry (example_match ''A'' ''Lead Routing'' (3 / 5))],
       matched_capabilities = {''Lead Management''},
       max_similarity_score = 4 / 5, avg_similarity_score = 7 / 10, total_matches = 2,
       v_rating = None \<rparr>"

definition example_row :: "string \<Rightarrow> string \<Rightarrow> string \<Rightarrow> feature_row" where
  "example_row product category fname =
     \<lparr> product_name = product, seller = ''Acme'', main_category = Some category,
       rating = RNum 4,
       Features_Category = PStr ''Sales'', Feature_name = PStr fname,
       Feature_description = PStr [], Feature_percent = PNum 90, Feature_review = PNum 12 \<rparr>"

definition example_rows :: "feature_row list" where
  "example_rows =
     [example_row ''A'' ''CRM Software'' ''Lead Management'',
      example_row ''A'' ''CRM Software'' ''Lead Scoring'',
      example_row ''B'' ''Marketing Automation'' ''Email Campaigns'']"

text \<open>
  A stand-in for the scikit-learn calls: similarity 1 when the capability starts the
  feature text, 1/2 when their first four characters agree, 0 otherwise.
\<close>

definition example_backend :: similarity_backend where
  "example_backend all_texts n =
     Some (map (\<lambda>c. map (\<lambda>t. if prefix c t then 1 else if take 4 c = take 4 t then 1 / 2 else 0)
                       (drop n all_texts))
             (take n all_texts))"

text \<open>A backend whose vectoriser always raises.\<close>

definition failing_backend :: similarity_backend where
  "failing_backend all_texts n = None"

definition example_str :: "pyval \<Rightarrow> string" where
  "example_str v = (case v of PStr s \<Rightarrow> s | PNone \<Rightarrow> ''None'' | _ \<Rightarrow> ''nan'')"

text \<open>
  A stand-in for the compilation of the patterns with special characters: it
  rejects them all.
\<close>

definition example_compiler :: regex_compiler where
  "example_compiler pat = Inl RegexError"

text \<open>A stand-in for \<open>float\<close> on strings that reads one numeral.\<close>

definition example_float :: "string \<Rightarrow> real option" where
  "example_float s = (if s = ''4.5'' then Some (9 / 2) else None)"

text \<open>A ranker whose weights do not sum to one.\<close>

definition heavy_ranker :: vendor_ranker where
  "heavy_ranker = \<lparr> feature_weight = 2, rating_weight = 3 \<rparr>"

text \<open>A vendor entry with the given average similarity and rating cell.\<close>

definition rated_vendor :: "real \<Rightarrow> rating_cell option \<Rightarrow> vendor_data" where
  "rated_vendor avg cell =
     \<lparr> v_product_name = ''D'', v_vendor = ''Acme'', v_main_category = Some ''CRM Software'',
       matching_features = [], matched_capabilities = {''Lead Management''},
       max_similarity_score = avg, avg_similarity_score = avg, total_matches = 1,
       v_rating = cell \<rparr>"

text \<open>A table with rows of which none has a main category.\<close>

definition uncategorised_rows :: "feature_row list" where
  "uncategorised_rows =
     [\<lparr> product_name = ''A'', seller = ''Acme'', main_category = None, rating = RNum 4,
        Features_Category = PStr ''Sales'', Feature_name = PStr ''Lead Management'',
        Feature_description = PStr [], Feature_percent = PNum 90, Feature_review = PNum 12 \<rparr>]"

definition example_product :: product_record where
  "example_product =
     \<lparr> product_name = ''A'', seller = ''Acme'', main_category = Some ''CRM Software'',
       rating = RNum 4, Features = Some ''[...]'' \<rparr>"

text \<open>A feature group with two features, one with an empty list, one without the key.\<close>

definition example_groups :: "pyval list" where
  "example_groups =
     [PDict [(''Category'', PStr ''Sales''),
             (''features'',
              PList [PDict [(''name'', PStr ''Lead Management''), (''description'', PStr ''Track leads''),
                            (''percent'', PNum 90), (''review'', PNum 12)],
                     PDict [(''name'', PStr ''Lead Scoring'')]])],
      PDict [(''Category'', PStr ''Reports''), (''features'', PList [])],
      PDict [(''Category'', PStr ''Mobile'')]]"

text \<open>A document with one feature group, whose feature list is empty, and its parser.\<close>

definition empty_group_document :: pyval where
  "empty_group_document = PList [PDict [(''Category'', PStr ''Reports''), (''features'', PList [])]]"

definition empty_group_loads :: "string \<Rightarrow> pyval option" where
  "empty_group_loads s = Some empty_group_document"




section \<open>The ranker\<close>

lemma set_py_sort_desc: "set (py_sort_desc f xs) = set xs"
  by (simp add: py_sort_desc_def)

lemma length_py_sort_desc: "length (py_sort_desc f xs) = length xs"
  by (simp add: py_sort_desc_def)

lemma sorted_py_sort_desc: "sorted_wrt (\<lambda>a b. f a \<ge> f b) (py_sort_desc f xs)"
proof -
  have "sorted (map f (sort_key f (rev xs)))"
    by (rule sorted_sort_key)
  then have "sorted_wrt (\<lambda>a b. f a \<le> f b) (sort_key f (rev xs))"
    by (simp add: sorted_wrt_map)
  then show ?thesis
    by (simp add: py_sort_desc_def sorted_wrt_rev)
qed

lemma stable_py_sort_desc:
  "filter (\<lambda>y. f y = k) (py_sort_desc f xs) = filter (\<lambda>y. f y = k) xs"
proof -
  have "filter (\<lambda>y. f y = k) (sort_key f (rev xs)) = filter (\<lambda>y. f y = k) (rev xs)"
    by (rule sort_key_stable)
  then show ?thesis
    by (simp add: py_sort_desc_def rev_filter [symmetric])
qed

lemma filter_py_sort_desc:
  "filter P (py_sort_desc f xs) = py_sort_desc f (filter P xs)"
  by (simp add: py_sort_desc_def rev_filter [symmetric] filter_sort)

lemma set_py_slice_to: "set (py_slice_to xs n) \<subseteq> set xs"
  by (auto simp: py_slice_to_def split: option.splits dest: in_set_takeD)

lemma vendor_key_vendor_result: "map vendor_key (map (vendor_result self pf) vendors) = map fst vendors"
  by (induction vendors) (auto simp: vendor_result_def)

lemma rank_vendors_subset:
  "set (rank_vendors self pf vendors limit) \<subseteq> vendor_result self pf ` set vendors"
proof (cases "vendors = []")
  case True
  then show ?thesis by (simp add: rank_vendors_def)
next
  case False
  have "set (rank_vendors self pf vendors limit)
          \<subseteq> set (py_sort_desc rank_score (map (vendor_result self pf) vendors))"
    using False by (simp add: rank_vendors_def set_py_slice_to)
  then show ?thesis
    by (simp add: set_py_sort_desc)
qed

text \<open>
  Claim C1.  The score that \<open>compute_rank_score\<close> gives a vendor is the feature
  weight times the average similarity brought into the interval from 0 to 1, plus
  the rating weight times the normalised rating.  The normalised rating is the
  rating divided by five and brought into the interval from 0 to 1 when the rating
  is positive, and 0 otherwise: for a rating that is absent, NaN, not positive, or a
  text that \<open>float\<close> rejects; a text that \<open>float\<close> reads counts as the number
  read.  The weights enter as they are configured and nothing rescales them, so with
  weights that are not negative the score lies between 0 and their sum.  Every
  vendor that \<open>rank_vendors\<close> returns carries the score of this formula for its
  dictionary entry.
\<close>

theorem rank_score_formula:
  "compute_rank_score self py_float v None =
      feature_weight self * max 0 (min 1 (avg_similarity_score v))
      + rating_weight self *
          (case v_rating v of
             None \<Rightarrow> 0
           | Some (RNum x) \<Rightarrow> (if x > 0 then max 0 (min 1 (x / 5)) else 0)
           | Some RNaN \<Rightarrow> 0
           | Some (RStr s) \<Rightarrow>
               (case py_float s of
                  None \<Rightarrow> 0
                | Some x \<Rightarrow> (if x > 0 then max 0 (min 1 (x / 5)) else 0)))
   \<and> (0 \<le> feature_weight self \<and> 0 \<le> rating_weight self \<longrightarrow>
        0 \<le> compute_rank_score self py_float v None
        \<and> compute_rank_score self py_float v None \<le> feature_weight self + rating_weight self)
   \<and> (\<forall>r \<in> set (rank_vendors self py_float vendors limit).
         \<exists>kv \<in> set vendors.
           vendor_key r = fst kv \<and>
           rank_score r =
             feature_weight self * max 0 (min 1 (avg_similarity_score (snd kv)))
             + rating_weight self *
                 (case v_rating (snd kv) of
                    None \<Rightarrow> 0
                  | Some (RNum x) \<Rightarrow> (if x > 0 then max 0 (min 1 (x / 5)) else 0)
                  | Some RNaN \<Rightarrow> 0
                  | Some (RStr s) \<Rightarrow>
                      (case py_float s of
                         None \<Rightarrow> 0
                       | Some x \<Rightarrow> (if x > 0 then max 0 (min 1 (x / 5)) else 0))))"
proof -
  have formula: "compute_rank_score self py_float w None =
      feature_weight self * max 0 (min 1 (avg_similarity_score w))
      + rating_weight self *
          (case v_rating w of
             None \<Rightarrow> 0
           | Some (RNum x) \<Rightarrow> (if x > 0 then max 0 (min 1 (x / 5)) else 0)
           | Some RNaN \<Rightarrow> 0
           | Some (RStr s) \<Rightarrow>
               (case py_float s of
                  None \<Rightarrow> 0
                | Some x \<Rightarrow> (if x > 0 then max 0 (min 1 (x / 5)) else 0)))" for w
    by (simp add: compute_rank_score_def normalized_rating_def float_rating_def clamp01_def
        split: option.splits rating_cell.splits)
  have unit: "0 \<le> clamp01 x \<and> clamp01 x \<le> 1" for x
    by (simp add: clamp01_def)
  have bounds: "0 \<le> compute_rank_score self py_float v None
        \<and> compute_rank_score self py_float v None \<le> feature_weight self + rating_weight self"
    if w: "0 \<le> feature_weight self" "0 \<le> rating_weight self"
  proof -
    let ?a = "clamp01 (avg_similarity_score v)"
    let ?b = "normalized_rating (float_rating py_float (v_rating v))"
    have score: "compute_rank_score self py_float v None
                   = feature_weight self * ?a + rating_weight self * ?b"
      by (simp add: compute_rank_score_def)
    have a: "0 \<le> ?a" "?a \<le> 1"
      using unit by simp_all
    have b: "0 \<le> ?b" "?b \<le> 1"
      using unit by (simp_all add: normalized_rating_def)
    have lo: "0 \<le> feature_weight self * ?a + rating_weight self * ?b"
      using w a(1) b(1) by simp
    have "feature_weight self * ?a \<le> feature_weight self * 1"
      using w(1) a(2) by (rule mult_left_mono [rotated])
    moreover have "rating_weight self * ?b \<le> rating_weight self * 1"
      using w(2) b(2) by (rule mult_left_mono [rotated])
    ultimately have hi: "feature_weight self * ?a + rating_weight self * ?b
                           \<le> feature_weight self + rating_weight self"
      by simp
    from lo hi show ?thesis
      by (simp only: score)
  qed
  have fields: "vendor_key (vendor_result self py_float kv) = fst kv
      \<and> rank_score (vendor_result self py_float kv) = compute_rank_score self py_float (snd kv) None"
    for kv
    by (cases kv) (simp add: vendor_result_def)
  have "\<exists>kv \<in> set vendors.
           vendor_key r = fst kv \<and> rank_score r = compute_rank_score self py_float (snd kv) None"
    if "r \<in> set (rank_vendors self py_float vendors limit)" for r
  proof -
    from that obtain kv where "kv \<in> set vendors" "r = vendor_result self py_float kv"
      using rank_vendors_subset by blast
    then show ?thesis
      using fields by blast
  qed
  then have ranked: "\<forall>r \<in> set (rank_vendors self py_float vendors limit).
         \<exists>kv \<in> set vendors.
           vendor_key r = fst kv \<and> rank_score r = compute_rank_score self py_float (snd kv) None"
    by blast
  from formula [of v] bounds ranked [unfolded formula] show ?thesis
    by blast
qed

text \<open>
  Claim C4.  For a non-negative \<open>top_n\<close>, \<open>rank_vendors\<close> returns the first
  \<open>top_n\<close> elements of the list of all vendors sorted by descending
  \<open>rank_score\<close>: the output is in descending order, vendors of equal score stay
  in the order in which the input dictionary holds them, and all vendors are returned
  when \<open>top_n\<close> is at least their number.
\<close>

theorem rank_vendors_sorted_stable_truncated:
  assumes "0 \<le> n"
  shows "let emitted = map (vendor_result self pf) vendors;
             ranked = py_sort_desc rank_score emitted;
             out = rank_vendors self pf vendors (Some n)
         in map vendor_key emitted = map fst vendors
          \<and> sorted_wrt (\<lambda>a b. rank_score a \<ge> rank_score b) out
          \<and> out = take (nat n) ranked
          \<and> (\<forall>s. filter (\<lambda>r. rank_score r = s) ranked = filter (\<lambda>r. rank_score r = s) emitted)
          \<and> length out = min (nat n) (length vendors)
          \<and> (int (length vendors) \<le> n \<longrightarrow> out = ranked \<and> set out = set emitted)"
proof -
  let ?emitted = "map (vendor_result self pf) vendors"
  let ?ranked = "py_sort_desc rank_score ?emitted"
  let ?out = "rank_vendors self pf vendors (Some n)"
  have out: "?out = take (nat n) ?ranked"
    using assms by (simp add: rank_vendors_def py_slice_to_def py_sort_desc_def)
  have sorted: "sorted_wrt (\<lambda>a b. rank_score a \<ge> rank_score b) ?ranked"
    by (rule sorted_py_sort_desc)
  have 1: "map vendor_key ?emitted = map fst vendors"
    by (rule vendor_key_vendor_result)
  have 2: "sorted_wrt (\<lambda>a b. rank_score a \<ge> rank_score b) ?out"
    unfolding out using sorted by (rule sorted_wrt_take)
  have 3: "\<forall>s. filter (\<lambda>r. rank_score r = s) ?ranked = filter (\<lambda>r. rank_score r = s) ?emitted"
    by (simp only: stable_py_sort_desc) simp
  have 4: "length ?out = min (nat n) (length vendors)"
    unfolding out by (simp add: length_py_sort_desc min.commute)
  have 5: "int (length vendors) \<le> n \<longrightarrow> ?out = ?ranked \<and> set ?out = set ?emitted"
    unfolding out by (simp add: length_py_sort_desc set_py_sort_desc)
  show ?thesis
    unfolding Let_def using 1 2 out 3 4 5 by blast
qed


lemma example_ranked:
  "map (vendor_result initial_ranker (\<lambda>s. None)) example_vendors =
     [vendor_result initial_ranker (\<lambda>s. None) (''A_Acme'', example_vendor ''A'' (1 / 2) 4),
      vendor_result initial_ranker (\<lambda>s. None) (''B_Acme'', example_vendor ''B'' (4 / 5) 4),
      vendor_result initial_ranker (\<lambda>s. None) (''C_Acme'', example_vendor ''C'' (1 / 2) 4)]"
  by (simp add: example_vendors_def)

lemma example_scores:
  "rank_score (vendor_result initial_ranker (\<lambda>s. None) (k, example_vendor name (1 / 2) 4)) = 59 / 100"
  "rank_score (vendor_result initial_ranker (\<lambda>s. None) (k, example_vendor name (4 / 5) 4)) = 4 / 5"
  by (simp_all add: vendor_result_def example_vendor_def initial_ranker_def float_rating_def
      clamp01_def compute_rank_score_def normalized_rating_def)

lemma example_keys:
  "vendor_key (vendor_result self pf (k, v)) = k"
  by (simp add: vendor_result_def)

lemma example_sorted:
  "py_sort_desc rank_score (map (vendor_result initial_ranker (\<lambda>s. None)) example_vendors) =
     [vendor_result initial_ranker (\<lambda>s. None) (''B_Acme'', example_vendor ''B'' (4 / 5) 4),
      vendor_result initial_ranker (\<lambda>s. None) (''A_Acme'', example_vendor ''A'' (1 / 2) 4),
      vendor_result initial_ranker (\<lambda>s. None) (''C_Acme'', example_vendor ''C'' (1 / 2) 4)]"
  by (simp add: example_ranked py_sort_desc_def example_scores)

theorem rank_score_formula_witness:
  "vendor_result initial_ranker (\<lambda>s. None) (''B_Acme'', example_vendor ''B'' (4 / 5) 4)
     \<in> set (rank_vendors initial_ranker (\<lambda>s. None) example_vendors (Some 10))
   \<and> rank_score (vendor_result initial_ranker (\<lambda>s. None) (''B_Acme'', example_vendor ''B'' (4 / 5) 4))
       = 7 / 10 * (4 / 5) + 3 / 10 * (4 / 5)
   \<and> compute_rank_score heavy_ranker example_float (rated_vendor (3 / 2) (Some (RNum 7))) None
       = 2 * 1 + 3 * 1
   \<and> compute_rank_score heavy_ranker example_float (rated_vendor (- 1 / 4) (Some (RNum (- 2)))) None
       = 2 * 0 + 3 * 0
   \<and> compute_rank_score heavy_ranker example_float (rated_vendor (1 / 2) None) None
       = 2 * (1 / 2) + 3 * 0
   \<and> compute_rank_score heavy_ranker example_float (rated_vendor (1 / 2) (Some RNaN)) None
       = 2 * (1 / 2) + 3 * 0
   \<and> compute_rank_score heavy_ranker example_float (rated_vendor (1 / 2) (Some (RStr ''4.5''))) None
       = 2 * (1 / 2) + 3 * (9 / 10)
   \<and> compute_rank_score heavy_ranker example_float (rated_vendor (1 / 2) (Some (RStr ''n/a''))) None
       = 2 * (1 / 2) + 3 * 0
   \<and> 0 \<le> feature_weight heavy_ranker \<and> 0 \<le> rating_weight heavy_ranker
   \<and> compute_rank_score heavy_ranker example_float (rated_vendor (3 / 2) (Some (RNum 7))) None
       \<le> feature_weight heavy_ranker + rating_weight heavy_ranker"
proof -
  have ne: "example_vendors \<noteq> []"
    by (simp add: example_vendors_def)
  have mem: "vendor_result initial_ranker (\<lambda>s. None) (''B_Acme'', example_vendor ''B'' (4 / 5) 4)
     \<in> set (rank_vendors initial_ranker (\<lambda>s. None) example_vendors (Some 10))"
    by (simp add: rank_vendors_def ne example_sorted py_slice_to_def)
  from rank_score_formula [of initial_ranker "\<lambda>s. None" "example_vendor ''B'' (4 / 5) 4"
      example_vendors "Some 10"] mem
  have "\<exists>kv \<in> set example_vendors.
          vendor_key (vendor_result initial_ranker (\<lambda>s. None) (''B_Acme'', example_vendor ''B'' (4 / 5) 4)) = fst kv \<and>
          rank_score (vendor_result initial_ranker (\<lambda>s. None) (''B_Acme'', example_vendor ''B'' (4 / 5) 4)) =
             feature_weight initial_ranker * max 0 (min 1 (avg_similarity_score (snd kv)))
             + rating_weight initial_ranker *
                 (case v_rating (snd kv) of
                    None \<Rightarrow> 0
                  | Some (RNum x) \<Rightarrow> (if x > 0 then max 0 (min 1 (x / 5)) else 0)
                  | Some RNaN \<Rightarrow> 0
                  | Some (RStr s) \<Rightarrow>
                      (case (\<lambda>s. None) s of
                         None \<Rightarrow> 0
                       | Some x \<Rightarrow> (if x > 0 then max 0 (min 1 (x / 5)) else 0)))"
    by blast
  then have ranked: "rank_score (vendor_result initial_ranker (\<lambda>s. None) (''B_Acme'', example_vendor ''B'' (4 / 5) 4))
       = 7 / 10 * (4 / 5) + 3 / 10 * (4 / 5)"
    by (simp add: example_vendors_def example_keys)
      (simp add: example_vendor_def initial_ranker_def)
  have w: "0 \<le> feature_weight heavy_ranker \<and> 0 \<le> rating_weight heavy_ranker"
    by (simp add: heavy_ranker_def)
  note t = rank_score_formula [of heavy_ranker example_float _ "[]" None]
  from t [of "rated_vendor (3 / 2) (Some (RNum 7))"]
  have 1: "compute_rank_score heavy_ranker example_float (rated_vendor (3 / 2) (Some (RNum 7))) None
       = 2 * 1 + 3 * 1"
    by (simp add: rated_vendor_def heavy_ranker_def)
  from t [of "rated_vendor (- 1 / 4) (Some (RNum (- 2)))"]
  have 2: "compute_rank_score heavy_ranker example_float (rated_vendor (- 1 / 4) (Some (RNum (- 2)))) None
       = 2 * 0 + 3 * 0"
    by (simp add: rated_vendor_def heavy_ranker_def)
  from t [of "rated_vendor (1 / 2) None"]
  have 3: "compute_rank_score heavy_ranker example_float (rated_vendor (1 / 2) None) None
       = 2 * (1 / 2) + 3 * 0"
    by (simp add: rated_vendor_def heavy_ranker_def)
  from t [of "rated_vendor (1 / 2) (Some RNaN)"]
  have 4: "compute_rank_score heavy_ranker example_float (rated_vendor (1 / 2) (Some RNaN)) None
       = 2 * (1 / 2) + 3 * 0"
    by (simp add: rated_vendor_def heavy_ranker_def)
  from t [of "rated_vendor (1 / 2) (Some (RStr ''4.5''))"]
  have 5: "compute_rank_score heavy_ranker example_float (rated_vendor (1 / 2) (Some (RStr ''4.5''))) None
       = 2 * (1 / 2) + 3 * (9 / 10)"
    by (simp add: rated_vendor_def heavy_ranker_def example_float_def)
  from t [of "rated_vendor (1 / 2) (Some (RStr ''n/a''))"]
  have 6: "compute_rank_score heavy_ranker example_float (rated_vendor (1 / 2) (Some (RStr ''n/a''))) None
       = 2 * (1 / 2) + 3 * 0"
    by (simp add: rated_vendor_def heavy_ranker_def example_float_def)
  from t [of "rated_vendor (3 / 2) (Some (RNum 7))"] w
  have 7: "compute_rank_score heavy_ranker example_float (rated_vendor (3 / 2) (Some (RNum 7))) None
       \<le> feature_weight heavy_ranker + rating_weight heavy_ranker"
    by blast
  from mem ranked 1 2 3 4 5 6 w 7 show ?thesis
    by blast
qed

theorem rank_vendors_sorted_stable_truncated_witness:
  "(0::int) \<le> 2
   \<and> map vendor_key (rank_vendors initial_ranker (\<lambda>s. None) example_vendors (Some 2))
       = [''B_Acme'', ''A_Acme'']
   \<and> map rank_score (rank_vendors initial_ranker (\<lambda>s. None) example_vendors (Some 2))
       = [4 / 5, 59 / 100]
   \<and> int (length example_vendors) \<le> 5
   \<and> map vendor_key (rank_vendors initial_ranker (\<lambda>s. None) example_vendors (Some 5))
       = [''B_Acme'', ''A_Acme'', ''C_Acme'']"
  using rank_vendors_sorted_stable_truncated [of 2 initial_ranker "\<lambda>s. None" example_vendors]
    rank_vendors_sorted_stable_truncated [of 5 initial_ranker "\<lambda>s. None" example_vendors]
  by (simp add: Let_def example_sorted example_keys example_scores)
     (simp add: example_vendors_def)

section \<open>The vendor aggregation\<close>

lemma map_fst_dict_update: "map fst (dict_update k f d) = map fst d"
  by (induction d) (auto simp: dict_update_def)

lemma dict_update_absent: "k \<notin> fst ` set d \<Longrightarrow> dict_update k f d = d"
  by (induction d) (auto simp: dict_update_def)

lemma dict_update_append:
  "dict_update k f (d @ e) = dict_update k f d @ dict_update k f e"
  by (simp add: dict_update_def)

lemma in_dict_update:
  "kv \<in> set (dict_update k f d) \<Longrightarrow>
     (fst kv \<noteq> k \<and> kv \<in> set d) \<or> (fst kv = k \<and> (\<exists>v. (k, v) \<in> set d \<and> snd kv = f v))"
  by (induction d) (auto simp: dict_update_def split: if_splits)

lemma add_match_new:
  "vendor_key_of m \<notin> fst ` set d \<Longrightarrow>
     add_match d m = d @ [(vendor_key_of m, record_match m (new_vendor m))]"
  by (simp add: add_match_def Let_def dict_update_append dict_update_absent)
     (simp add: dict_update_def)

lemma add_match_old:
  "vendor_key_of m \<in> fst ` set d \<Longrightarrow>
     add_match d m = dict_update (vendor_key_of m) (record_match m) d"
  by (simp add: add_match_def Let_def)

lemma matches_of_snoc:
  "matches_of k (ms @ [m]) = (if vendor_key_of m = k then matches_of k ms @ [m] else matches_of k ms)"
  by (simp add: matches_of_def)

lemma matches_of_empty_iff: "matches_of k ms = [] \<longleftrightarrow> k \<notin> vendor_key_of ` set ms"
  by (auto simp: matches_of_def filter_empty_conv)

lemma entry_ok_other:
  "entry_ok ms k v \<Longrightarrow> vendor_key_of m \<noteq> k \<Longrightarrow> entry_ok (ms @ [m]) k v"
  by (simp add: entry_ok_def matches_of_snoc)

lemma Max_insert0_snoc:
  assumes "finite S"
  shows "Max (insert 0 (insert (s::real) S)) = max (Max (insert 0 S)) s"
proof -
  have e: "insert 0 (insert s S) = insert s (insert 0 S)"
    by auto
  have "Max (insert s (insert 0 S)) = max s (Max (insert 0 S))"
    using assms by (intro Max_insert) auto
  then show ?thesis
    unfolding e by (metis max.commute)
qed

lemma entry_ok_same:
  assumes "entry_ok ms k v" and "vendor_key_of m = k"
  shows "entry_ok (ms @ [m]) k (record_match m v)"
  using assms
  by (simp add: entry_ok_def matches_of_snoc record_match_def Max_insert0_snoc)

lemma entry_ok_new:
  assumes "matches_of (vendor_key_of m) ms = []"
  shows "entry_ok (ms @ [m]) (vendor_key_of m) (record_match m (new_vendor m))"
  using assms
  by (simp add: entry_ok_def matches_of_snoc record_match_def new_vendor_def)

lemma agg_inv_empty: "agg_inv [] []"
  by (simp add: agg_inv_def)

lemma agg_inv_step:
  assumes "agg_inv ms d"
  shows "agg_inv (ms @ [m]) (add_match d m)"
proof (cases "vendor_key_of m \<in> fst ` set d")
  case False
  then have eq: "add_match d m = d @ [(vendor_key_of m, record_match m (new_vendor m))]"
    by (rule add_match_new)
  from False assms have none: "matches_of (vendor_key_of m) ms = []"
    by (simp add: agg_inv_def matches_of_empty_iff)
  have "entry_ok (ms @ [m]) (fst kv) (snd kv)" if "kv \<in> set d" for kv
  proof -
    from that False have "vendor_key_of m \<noteq> fst kv" by force
    moreover from that assms have "entry_ok ms (fst kv) (snd kv)" by (simp add: agg_inv_def)
    ultimately show ?thesis by (rule entry_ok_other [rotated])
  qed
  with assms False none show ?thesis
    by (auto simp: eq agg_inv_def entry_ok_new)
next
  case True
  then have eq: "add_match d m = dict_update (vendor_key_of m) (record_match m) d"
    by (rule add_match_old)
  have "entry_ok (ms @ [m]) (fst kv) (snd kv)"
    if "kv \<in> set (dict_update (vendor_key_of m) (record_match m) d)" for kv
  proof -
    from in_dict_update [OF that] show ?thesis
    proof
      assume "fst kv \<noteq> vendor_key_of m \<and> kv \<in> set d"
      with assms show ?thesis
        by (auto simp: agg_inv_def intro: entry_ok_other)
    next
      assume "fst kv = vendor_key_of m \<and> (\<exists>v. (vendor_key_of m, v) \<in> set d \<and> snd kv = record_match m v)"
      then obtain v where v: "(vendor_key_of m, v) \<in> set d" "snd kv = record_match m v"
        and k: "fst kv = vendor_key_of m" by blast
      from assms v(1) have "entry_ok ms (vendor_key_of m) v"
        by (force simp: agg_inv_def)
      then show ?thesis
        using entry_ok_same [of ms "vendor_key_of m" v m] v(2) k by simp
    qed
  qed
  moreover have "fst ` set (dict_update (vendor_key_of m) (record_match m) d) = fst ` set d"
    using map_fst_dict_update [of "vendor_key_of m" "record_match m" d]
    by (metis set_map)
  ultimately show ?thesis
    using assms True by (auto simp: eq agg_inv_def map_fst_dict_update)
qed

lemma agg_inv_foldl: "agg_inv ms (foldl add_match [] ms)"
  by (induction ms rule: rev_induct) (simp_all add: agg_inv_empty agg_inv_step)

lemma Max_insert0_nonneg:
  assumes "finite S" "S \<noteq> {}" "\<forall>x \<in> S. (0::real) \<le> x"
  shows "Max (insert 0 S) = Max S"
proof -
  from assms have "0 \<le> Max S"
    by (meson Max_in order_refl)
  with assms show ?thesis
    by (simp add: max_def)
qed


text \<open>
  Claim C2.  Every entry of the dictionary that \<open>select_matching_vendors\<close> returns
  stands for at least one match, namely the matches of the input with its key, in
  their order.  Its \<open>avg_similarity_score\<close> is the sum of their scores divided by
  their number (the number of matches, not of distinct capabilities), its
  \<open>max_similarity_score\<close> is the largest of their scores, and its
  \<open>total_matches\<close> is their number.  The scores are similarity values, hence not
  negative: the running maximum starts from 0.
\<close>

theorem aggregate_statistics:
  assumes "(k, v) \<in> set (select_matching_vendors matches)"
    and "\<forall>m \<in> set matches. 0 \<le> similarity_score m"
  shows "let retained = filter (\<lambda>m. vendor_key_of m = k) matches;
             scores = map similarity_score retained
         in retained \<noteq> []
          \<and> matching_features v = map feature_entry retained
          \<and> avg_similarity_score v = sum_list scores / real (length scores)
          \<and> max_similarity_score v = Max (set scores)
          \<and> total_matches v = length retained"
proof -
  from assms(1) obtain w where w: "(k, w) \<in> set (foldl add_match [] matches)"
    and v: "v = set_average w"
    by (auto simp: select_matching_vendors_def)
  have "agg_inv matches (foldl add_match [] matches)"
    by (rule agg_inv_foldl)
  with w have ok: "entry_ok matches k w"
    by (force simp: agg_inv_def)
  let ?retained = "filter (\<lambda>m. vendor_key_of m = k) matches"
  let ?scores = "map similarity_score ?retained"
  from ok have ne: "?retained \<noteq> []"
    and mf: "matching_features w = map feature_entry ?retained"
    and tm: "total_matches w = length ?retained"
    and mx: "max_similarity_score w = Max (insert 0 (similarity_score ` set ?retained))"
    by (simp_all add: entry_ok_def matches_of_def)
  from ne tm have pos: "total_matches w > 0"
    by simp
  have entry_score: "similarity_score \<circ> feature_entry = similarity_score"
    by (simp add: fun_eq_iff feature_entry_def)
  have 1: "matching_features v = map feature_entry ?retained"
    using mf by (simp add: v set_average_def)
  have 2: "avg_similarity_score v = sum_list ?scores / real (length ?scores)"
    using pos by (simp add: v set_average_def mf tm entry_score)
  have "\<forall>x \<in> similarity_score ` set ?retained. 0 \<le> x"
    using assms(2) by auto
  moreover have "similarity_score ` set ?retained \<noteq> {}"
    using ne by (simp only: image_is_empty set_empty) simp
  ultimately have "Max (insert 0 (similarity_score ` set ?retained)) = Max (similarity_score ` set ?retained)"
    by (intro Max_insert0_nonneg) auto
  then have 3: "max_similarity_score v = Max (set ?scores)"
    using mx by (simp add: v set_average_def)
  have 4: "total_matches v = length ?retained"
    using tm by (simp add: v set_average_def)
  show ?thesis
    unfolding Let_def using ne 1 2 3 4 by blast
qed


lemma example_match_fields:
  "vendor_key_of (example_match p f x) = p @ ''_Acme''"
  "similarity_score (example_match p f x) = x"
  "matched_capability (example_match p f x) = ''Lead Management''"
  "m_product_name (example_match p f x) = p"
  "m_vendor (example_match p f x) = ''Acme''"
  "m_main_category (example_match p f x) = Some ''CRM Software''"
  by (simp_all add: example_match_def vendor_key_of_def)

lemma feature_entry_score: "similarity_score (feature_entry m) = similarity_score m"
  by (simp add: feature_entry_def)

lemma example_selected:
  "(''A_Acme'', example_aggregate) \<in> set (select_matching_vendors example_matches)"
  by (simp add: select_matching_vendors_def example_matches_def add_match_def dict_update_def
      Let_def example_match_fields record_match_def new_vendor_def set_average_def
      example_aggregate_def feature_entry_score)

theorem aggregate_statistics_witness:
  "(''A_Acme'', example_aggregate) \<in> set (select_matching_vendors example_matches)
   \<and> 0 \<le> similarity_score (example_match ''A'' ''Lead Management'' (4 / 5))
   \<and> 0 \<le> similarity_score (example_match ''B'' ''Lead Scoring'' (7 / 10))
   \<and> 0 \<le> similarity_score (example_match ''A'' ''Lead Routing'' (3 / 5))
   \<and> avg_similarity_score example_aggregate = (4 / 5 + 3 / 5) / 2
   \<and> max_similarity_score example_aggregate = Max {4 / 5, 3 / 5}
   \<and> total_matches example_aggregate = 2"
proof -
  have nonneg: "\<forall>m \<in> set example_matches. 0 \<le> similarity_score m"
    by (simp add: example_matches_def example_match_fields)
  from aggregate_statistics [OF example_selected nonneg] show ?thesis
    using example_selected nonneg
    by (simp add: Let_def example_matches_def example_match_fields)
qed

section \<open>The similarity matcher\<close>

lemma row_matches_Nil: "row_matches thr M i cap j [] = []"
  by (simp add: row_matches_def)

lemma row_matches_Cons:
  "row_matches thr M i cap j ((row, text) # rest) =
     (if thr \<le> M ! i ! j then [build_match row cap (M ! i ! j) text] else [])
     @ row_matches thr M i cap (Suc j) rest"
  by (simp add: row_matches_def)

lemma feature_loop_shape:
  assumes "i < length M" and "j + length rows \<le> length (M ! i)"
  shows "feature_loop thr M i cap j rows = Inr (row_matches thr M i cap j rows)"
  using assms(2)
proof (induction rows arbitrary: j)
  case Nil
  show ?case by (simp add: row_matches_Nil)
next
  case (Cons rt rest)
  obtain row ftext where rt: "rt = (row, ftext)" by (cases rt)
  from Cons.prems have "j < length (M ! i)" and "Suc j + length rest \<le> length (M ! i)"
    by simp_all
  with Cons.IH [of "Suc j"] assms(1) show ?case
    by (simp add: rt matrix_at_def row_matches_Cons)
qed

lemma all_matches_Nil: "all_matches thr M rows i [] = []"
  by (simp add: all_matches_def)

lemma all_matches_Cons:
  "all_matches thr M rows i (cap # rest) =
     row_matches thr M i cap 0 rows @ all_matches thr M rows (Suc i) rest"
  by (simp add: all_matches_def)

lemma capability_loop_shape:
  assumes "\<forall>r \<in> set M. length rows \<le> length r" and "i + length caps \<le> length M"
  shows "capability_loop thr M rows i caps = Inr (all_matches thr M rows i caps)"
  using assms(2)
proof (induction caps arbitrary: i)
  case Nil
  show ?case by (simp add: all_matches_Nil)
next
  case (Cons cap rest)
  from Cons.prems have i: "i < length M" and rest: "Suc i + length rest \<le> length M"
    by simp_all
  from i assms(1) have "0 + length rows \<le> length (M ! i)"
    by simp
  with i have "feature_loop thr M i cap 0 rows = Inr (row_matches thr M i cap 0 rows)"
    by (rule feature_loop_shape)
  with Cons.IH [OF rest] show ?case
    by (simp add: all_matches_Cons)
qed

lemma in_row_matches:
  "m \<in> set (row_matches thr M i cap j rows) \<longleftrightarrow>
     (\<exists>jj < length rows. thr \<le> M ! i ! (j + jj) \<and>
        m = build_match (fst (rows ! jj)) cap (M ! i ! (j + jj)) (snd (rows ! jj)))"
proof (induction rows arbitrary: j)
  case Nil
  show ?case by (simp add: row_matches_Nil)
next
  case (Cons rt rest)
  obtain row ftext where rt: "rt = (row, ftext)" by (cases rt)
  have split: "(\<exists>jj < length (rt # rest). P jj) \<longleftrightarrow> P 0 \<or> (\<exists>jj < length rest. P (Suc jj))" for P
    by (auto simp: less_Suc_eq_0_disj)
  show ?case
    unfolding rt row_matches_Cons set_append Un_iff Cons.IH [of "Suc j"] split [unfolded rt]
    by auto
qed

lemma in_all_matches:
  "m \<in> set (all_matches thr M rows i caps) \<longleftrightarrow>
     (\<exists>ii < length caps. \<exists>jj < length rows. thr \<le> M ! (i + ii) ! jj \<and>
        m = build_match (fst (rows ! jj)) (caps ! ii) (M ! (i + ii) ! jj) (snd (rows ! jj)))"
proof (induction caps arbitrary: i)
  case Nil
  show ?case by (simp add: all_matches_Nil)
next
  case (Cons cap rest)
  have split: "(\<exists>ii < length (cap # rest). P ii) \<longleftrightarrow> P 0 \<or> (\<exists>ii < length rest. P (Suc ii))" for P
    by (auto simp: less_Suc_eq_0_disj)
  show ?case
    unfolding all_matches_Cons set_append Un_iff Cons.IH [of "Suc i"] split in_row_matches
    by auto
qed

lemma array_size_pos:
  assumes "M \<noteq> []" and "\<forall>r \<in> set M. length r = m" and "0 < m"
  shows "array_size M \<noteq> 0"
  using assms by (cases M) (auto simp: array_size_def)


lemma build_match_score: "similarity_score (build_match r c x t) = x"
  by (simp add: build_match_def)

lemma matrix_nonempty_size:
  assumes "caps \<noteq> []" "df \<noteq> []" "length M = length caps" "\<forall>r \<in> set M. length r = length df"
  shows "array_size M \<noteq> 0"
proof -
  from assms(1,3) have "M \<noteq> []" by auto
  moreover from assms(2) have "0 < length df" by simp
  ultimately show ?thesis
    using assms(4) by (intro array_size_pos [where m = "length df"]) auto
qed

lemma find_matching_features_shape:
  assumes "caps \<noteq> []" and "df \<noteq> []"
    and "M = compute_similarity_matrix backend caps (feature_texts_of py_str df)"
    and "length M = length caps" and "\<forall>r \<in> set M. length r = length df"
  shows "find_matching_features backend py_str self caps df =
           Inr (py_sort_desc similarity_score
                  (all_matches (similarity_threshold self) M
                     (zip df (feature_texts_of py_str df)) 0 caps))"
proof -
  have len: "length (zip df (feature_texts_of py_str df)) = length df"
    by (simp add: feature_texts_of_def)
  have size: "array_size M \<noteq> 0"
    using assms(1,2,4,5) by (rule matrix_nonempty_size)
  have "capability_loop (similarity_threshold self) M (zip df (feature_texts_of py_str df)) 0 caps
          = Inr (all_matches (similarity_threshold self) M (zip df (feature_texts_of py_str df)) 0 caps)"
    using assms(4,5) by (intro capability_loop_shape) (simp_all add: len)
  with size assms(1,2) show ?thesis
    by (simp add: find_matching_features_def Let_def assms(3) [symmetric])
qed

text \<open>
  Claim C3.  Let the similarity matrix have one row per capability and one column per
  feature row.  Then \<open>find_matching_features\<close> returns a list in which the match
  of capability \<open>i\<close> with row \<open>j\<close> occurs if and only if the entry \<open>(i, j)\<close> of
  the matrix is greater than or equal to the threshold, an entry equal to the
  threshold included, and the list holds nothing but such matches.
\<close>

theorem threshold_inclusive:
  assumes "caps \<noteq> []" and "df \<noteq> []"
    and "M = compute_similarity_matrix backend caps (feature_texts_of py_str df)"
    and "length M = length caps" and "\<forall>r \<in> set M. length r = length df"
  shows "\<exists>matches. find_matching_features backend py_str self caps df = Inr matches
     \<and> (\<forall>i < length caps. \<forall>j < length df.
          build_match (df ! j) (caps ! i) (M ! i ! j) (feature_texts_of py_str df ! j) \<in> set matches
            \<longleftrightarrow> M ! i ! j \<ge> similarity_threshold self)
     \<and> (\<forall>m \<in> set matches. \<exists>i < length caps. \<exists>j < length df.
          m = build_match (df ! j) (caps ! i) (M ! i ! j) (feature_texts_of py_str df ! j))"
proof -
  let ?texts = "feature_texts_of py_str df"
  let ?thr = "similarity_threshold self"
  let ?all = "all_matches ?thr M (zip df ?texts) 0 caps"
  have len: "length ?texts = length df"
    by (simp add: feature_texts_of_def)
  have res: "find_matching_features backend py_str self caps df = Inr (py_sort_desc similarity_score ?all)"
    using assms by (rule find_matching_features_shape)
  have mem: "m \<in> set ?all \<longleftrightarrow>
     (\<exists>i < length caps. \<exists>j < length df. ?thr \<le> M ! i ! j \<and>
        m = build_match (df ! j) (caps ! i) (M ! i ! j) (?texts ! j))" for m
    by (simp add: in_all_matches len cong: conj_cong)
  have iff: "build_match (df ! j) (caps ! i) (M ! i ! j) (?texts ! j) \<in> set ?all \<longleftrightarrow> ?thr \<le> M ! i ! j"
    if "i < length caps" "j < length df" for i j
  proof
    assume "build_match (df ! j) (caps ! i) (M ! i ! j) (?texts ! j) \<in> set ?all"
    with mem obtain i' j' where le: "?thr \<le> M ! i' ! j'"
      and eq: "build_match (df ! j) (caps ! i) (M ! i ! j) (?texts ! j)
            = build_match (df ! j') (caps ! i') (M ! i' ! j') (?texts ! j')"
      by blast
    from eq have "similarity_score (build_match (df ! j) (caps ! i) (M ! i ! j) (?texts ! j))
            = similarity_score (build_match (df ! j') (caps ! i') (M ! i' ! j') (?texts ! j'))"
      by (rule arg_cong)
    then have "M ! i ! j = M ! i' ! j'"
      by (simp only: build_match_score)
    with le show "?thr \<le> M ! i ! j"
      by simp
  next
    assume "?thr \<le> M ! i ! j"
    with that mem show "build_match (df ! j) (caps ! i) (M ! i ! j) (?texts ! j) \<in> set ?all"
      by blast
  qed
  have only: "\<exists>i < length caps. \<exists>j < length df.
          m = build_match (df ! j) (caps ! i) (M ! i ! j) (?texts ! j)"
    if "m \<in> set ?all" for m
    using that mem by blast
  have set_eq: "set (py_sort_desc similarity_score ?all) = set ?all"
    by (rule set_py_sort_desc)
  have A: "\<forall>i < length caps. \<forall>j < length df.
          build_match (df ! j) (caps ! i) (M ! i ! j) (?texts ! j)
            \<in> set (py_sort_desc similarity_score ?all) \<longleftrightarrow> ?thr \<le> M ! i ! j"
    unfolding set_eq using iff by blast
  have B: "\<forall>m \<in> set (py_sort_desc similarity_score ?all). \<exists>i < length caps. \<exists>j < length df.
          m = build_match (df ! j) (caps ! i) (M ! i ! j) (?texts ! j)"
    unfolding set_eq using only by blast
  from res A B show ?thesis
    by blast
qed

lemma feature_loop_filter:
  assumes "feature_loop t2 M i cap j rows = Inr m2" and "t1 \<le> t2"
  shows "\<exists>m1. feature_loop t1 M i cap j rows = Inr m1 \<and> m2 = filter (\<lambda>m. t2 \<le> similarity_score m) m1"
  using assms(1)
proof (induction rows arbitrary: j m2)
  case Nil
  then show ?case by simp
next
  case (Cons rt rest)
  obtain row ftext where rt: "rt = (row, ftext)" by (cases rt)
  from Cons.prems obtain x ms2 where x: "matrix_at M i j = Inr x"
    and ms2: "feature_loop t2 M i cap (Suc j) rest = Inr ms2"
    and m2: "m2 = (if t2 \<le> x then build_match row cap x ftext # ms2 else ms2)"
    by (auto simp: rt split: sum.splits)
  from Cons.IH [OF ms2] obtain ms1 where ms1: "feature_loop t1 M i cap (Suc j) rest = Inr ms1"
    and f: "ms2 = filter (\<lambda>m. t2 \<le> similarity_score m) ms1"
    by blast
  show ?case
    using x ms1 f m2 assms(2) by (simp add: rt build_match_score)
qed

lemma capability_loop_filter:
  assumes "capability_loop t2 M rows i caps = Inr m2" and "t1 \<le> t2"
  shows "\<exists>m1. capability_loop t1 M rows i caps = Inr m1 \<and> m2 = filter (\<lambda>m. t2 \<le> similarity_score m) m1"
  using assms(1)
proof (induction caps arbitrary: i m2)
  case Nil
  then show ?case by simp
next
  case (Cons cap rest)
  from Cons.prems obtain a2 b2 where a2: "feature_loop t2 M i cap 0 rows = Inr a2"
    and b2: "capability_loop t2 M rows (Suc i) rest = Inr b2"
    and m2: "m2 = a2 @ b2"
    by (auto split: sum.splits)
  from feature_loop_filter [OF a2 assms(2)] obtain a1 where a1: "feature_loop t1 M i cap 0 rows = Inr a1"
    and fa: "a2 = filter (\<lambda>m. t2 \<le> similarity_score m) a1"
    by blast
  from Cons.IH [OF b2] obtain b1 where b1: "capability_loop t1 M rows (Suc i) rest = Inr b1"
    and fb: "b2 = filter (\<lambda>m. t2 \<le> similarity_score m) b1"
    by blast
  show ?case
    using a1 b1 fa fb m2 by simp
qed

text \<open>
  Claim C5.  With the capabilities, the rows and their texts fixed, raising the
  threshold only removes matches: when \<open>t1 < t2\<close>, the matches returned at
  \<open>t2\<close> are those among the matches returned at \<open>t1\<close> whose score reaches
  \<open>t2\<close>, so the result at \<open>t1\<close> contains the result at \<open>t2\<close>.
\<close>

theorem threshold_antitone:
  assumes "t1 < t2"
    and "find_matching_features backend py_str (self \<lparr> similarity_threshold := t2 \<rparr>) caps df = Inr m2"
  shows "\<exists>m1. find_matching_features backend py_str (self \<lparr> similarity_threshold := t1 \<rparr>) caps df = Inr m1
     \<and> set m2 \<subseteq> set m1
     \<and> m2 = filter (\<lambda>m. t2 \<le> similarity_score m) m1"
proof -
  let ?texts = "feature_texts_of py_str df"
  let ?M = "compute_similarity_matrix backend caps ?texts"
  show ?thesis
  proof (cases "df = [] \<or> caps = [] \<or> array_size ?M = 0")
    case True
    with assms(2) show ?thesis
      by (auto simp: find_matching_features_def Let_def)
  next
    case False
    with assms(2) obtain l2 where l2: "capability_loop t2 ?M (zip df ?texts) 0 caps = Inr l2"
      and m2: "m2 = py_sort_desc similarity_score l2"
      by (auto simp: find_matching_features_def Let_def split: sum.splits)
    from assms(1) have "t1 \<le> t2" by simp
    from capability_loop_filter [OF l2 this] obtain l1
      where l1: "capability_loop t1 ?M (zip df ?texts) 0 caps = Inr l1"
        and f: "l2 = filter (\<lambda>m. t2 \<le> similarity_score m) l1"
      by blast
    have "find_matching_features backend py_str (self \<lparr> similarity_threshold := t1 \<rparr>) caps df
            = Inr (py_sort_desc similarity_score l1)"
      using False l1 by (simp add: find_matching_features_def Let_def)
    moreover have "m2 = filter (\<lambda>m. t2 \<le> similarity_score m) (py_sort_desc similarity_score l1)"
      by (simp add: m2 f filter_py_sort_desc)
    moreover from this have "set m2 \<subseteq> set (py_sort_desc similarity_score l1)"
      by auto
    ultimately show ?thesis
      by blast
  qed
qed


lemma np_zeros_nth: "i < n \<Longrightarrow> j < m \<Longrightarrow> np_zeros n m ! i ! j = 0"
  by (simp add: np_zeros_def)

lemma np_zeros_shape: "length (np_zeros n m) = n" "\<forall>r \<in> set (np_zeros n m). length r = m"
  by (simp_all add: np_zeros_def)

lemma all_matches_zeros:
  assumes "0 < thr" and "length caps \<le> n" and "length rows \<le> m"
  shows "all_matches thr (np_zeros n m) rows 0 caps = []"
proof -
  have "x \<notin> set (all_matches thr (np_zeros n m) rows 0 caps)" for x
  proof
    assume "x \<in> set (all_matches thr (np_zeros n m) rows 0 caps)"
    then obtain ii jj where "ii < length caps" "jj < length rows" "thr \<le> np_zeros n m ! ii ! jj"
      unfolding in_all_matches by auto
    with assms show False
      by (simp add: np_zeros_nth)
  qed
  then show ?thesis
    by (meson last_in_set)
qed

text \<open>
  Claim C8.  \<open>find_matching_features\<close> returns the empty list, and no error, when
  the capability list or the table of rows is empty.  When the vectoriser raises,
  \<open>compute_similarity_matrix\<close> answers with the all-zero matrix of the right
  shape, and \<open>find_matching_features\<close> still returns a list and no error; under
  a positive threshold that list is empty.
\<close>

theorem degenerate_inputs_give_no_match:
  "(caps = [] \<or> df = [] \<longrightarrow> find_matching_features backend py_str self caps df = Inr [])
   \<and> (caps \<noteq> [] \<and> df \<noteq> [] \<and> backend (caps @ feature_texts_of py_str df) (length caps) = None \<longrightarrow>
        compute_similarity_matrix backend caps (feature_texts_of py_str df)
          = np_zeros (length caps) (length df)
        \<and> (\<exists>ms. find_matching_features backend py_str self caps df = Inr ms
              \<and> (0 < similarity_threshold self \<longrightarrow> ms = [])))"
proof (intro conjI impI)
  assume "caps = [] \<or> df = []"
  then show "find_matching_features backend py_str self caps df = Inr []"
    by (auto simp: find_matching_features_def)
next
  assume a: "caps \<noteq> [] \<and> df \<noteq> [] \<and> backend (caps @ feature_texts_of py_str df) (length caps) = None"
  then show M: "compute_similarity_matrix backend caps (feature_texts_of py_str df)
          = np_zeros (length caps) (length df)"
    by (simp add: compute_similarity_matrix_def feature_texts_of_def)
  let ?rows = "zip df (feature_texts_of py_str df)"
  let ?all = "all_matches (similarity_threshold self) (np_zeros (length caps) (length df)) ?rows 0 caps"
  have res: "find_matching_features backend py_str self caps df = Inr (py_sort_desc similarity_score ?all)"
    using a M by (intro find_matching_features_shape) (simp_all add: np_zeros_shape)
  have "?all = []" if "0 < similarity_threshold self"
    using that by (intro all_matches_zeros) (simp_all add: feature_texts_of_def)
  then have "0 < similarity_threshold self \<longrightarrow> py_sort_desc similarity_score ?all = []"
    by (simp add: py_sort_desc_def)
  with res show "\<exists>ms. find_matching_features backend py_str self caps df = Inr ms
              \<and> (0 < similarity_threshold self \<longrightarrow> ms = [])"
    by blast
qed

lemma example_texts:
  "feature_texts_of example_str example_rows =
     [''Lead Management Lead Management'', ''Lead Scoring Lead Scoring'',
      ''Email Campaigns Email Campaigns'']"
  by (simp add: feature_texts_of_def example_rows_def example_row_def prepare_feature_text_def
      example_str_def py_strip_def is_space_def Let_def)

lemma example_matrix:
  "compute_similarity_matrix example_backend [''Lead Management'']
     (feature_texts_of example_str example_rows) = [[1, 1 / 2, 0]]"
  by (simp add: example_texts compute_similarity_matrix_def example_backend_def)

lemma example_rows_nth:
  "example_rows ! 0 = example_row ''A'' ''CRM Software'' ''Lead Management''"
  "example_rows ! 1 = example_row ''A'' ''CRM Software'' ''Lead Scoring''"
  "example_rows ! 2 = example_row ''B'' ''Marketing Automation'' ''Email Campaigns''"
  "length example_rows = 3"
  "example_rows \<noteq> []"
  by (simp_all add: example_rows_def)

theorem degenerate_inputs_give_no_match_witness:
  "find_matching_features failing_backend example_str initial_matcher [] example_rows = Inr []
   \<and> failing_backend ([''Lead Management''] @ feature_texts_of example_str example_rows) 1 = None
   \<and> 0 < similarity_threshold initial_matcher
   \<and> find_matching_features failing_backend example_str initial_matcher [''Lead Management'']
        example_rows = Inr []"
  using degenerate_inputs_give_no_match [of "[]" example_rows failing_backend example_str initial_matcher]
    degenerate_inputs_give_no_match [of "[''Lead Management'']" example_rows failing_backend
      example_str initial_matcher]
  by (auto simp: failing_backend_def initial_matcher_def example_rows_nth)

theorem threshold_inclusive_witness:
  "compute_similarity_matrix example_backend [''Lead Management'']
     (feature_texts_of example_str example_rows) = [[1, 1 / 2, 0]]
   \<and> (\<exists>matches. find_matching_features example_backend example_str initial_matcher
          [''Lead Management''] example_rows = Inr matches
        \<and> build_match (example_rows ! 1) ''Lead Management'' (1 / 2) ''Lead Scoring Lead Scoring''
             \<in> set matches
        \<and> build_match (example_rows ! 2) ''Lead Management'' 0 ''Email Campaigns Email Campaigns''
             \<notin> set matches)"
proof -
  have shape: "length [[1, 1 / 2, 0 :: real]] = length [''Lead Management'']"
    "\<forall>r \<in> set [[1, 1 / 2, 0 :: real]]. length r = length example_rows"
    by (simp_all add: example_rows_nth)
  from threshold_inclusive [OF _ example_rows_nth(5) example_matrix [symmetric] shape,
      of initial_matcher]
  obtain matches where res: "find_matching_features example_backend example_str initial_matcher
          [''Lead Management''] example_rows = Inr matches"
    and iff: "\<forall>i < length [''Lead Management'']. \<forall>j < length example_rows.
          build_match (example_rows ! j) ([''Lead Management''] ! i) ([[1, 1 / 2, 0]] ! i ! j)
              (feature_texts_of example_str example_rows ! j) \<in> set matches
            \<longleftrightarrow> [[1, 1 / 2, 0]] ! i ! j \<ge> similarity_threshold initial_matcher"
    by auto
  from iff [rule_format, of 0 1]
  have 1: "build_match (example_rows ! 1) ''Lead Management'' (1 / 2) ''Lead Scoring Lead Scoring''
             \<in> set matches"
    by (simp add: example_texts initial_matcher_def example_rows_nth(4))
  from iff [rule_format, of 0 2]
  have 2: "build_match (example_rows ! 2) ''Lead Management'' 0 ''Email Campaigns Email Campaigns''
             \<notin> set matches"
    by (simp add: example_texts initial_matcher_def example_rows_nth(4))
  from res 1 2 example_matrix show ?thesis
    by blast
qed


lemma example_matrix_literal:
  "compute_similarity_matrix example_backend [''Lead Management'']
     [''Lead Management Lead Management'', ''Lead Scoring Lead Scoring'',
      ''Email Campaigns Email Campaigns''] = [[1, 1 / 2, 0]]"
  by (simp add: compute_similarity_matrix_def example_backend_def)

lemma example_result_at_one:
  "find_matching_features example_backend example_str (initial_matcher \<lparr> similarity_threshold := 1 \<rparr>)
     [''Lead Management''] example_rows
   = Inr [build_match (example_rows ! 0) ''Lead Management'' 1 ''Lead Management Lead Management'']"
proof -
  have loop: "capability_loop 1 [[1, 1 / 2, 0]]
      (zip example_rows [''Lead Management Lead Management'', ''Lead Scoring Lead Scoring'',
                         ''Email Campaigns Email Campaigns'']) 0 [''Lead Management'']
    = Inr [build_match (example_rows ! 0) ''Lead Management'' 1 ''Lead Management Lead Management'']"
    by (simp add: example_rows_def matrix_at_def)
  show ?thesis
    by (simp add: find_matching_features_def Let_def example_texts example_matrix_literal
        example_rows_nth(5) array_size_def loop py_sort_desc_def del: capability_loop.simps)
qed

theorem threshold_antitone_witness:
  "(1 / 2 :: real) < 1
   \<and> find_matching_features example_backend example_str
        (initial_matcher \<lparr> similarity_threshold := 1 \<rparr>) [''Lead Management''] example_rows
       = Inr [build_match (example_rows ! 0) ''Lead Management'' 1 ''Lead Management Lead Management'']
   \<and> (\<exists>m1. find_matching_features example_backend example_str
               (initial_matcher \<lparr> similarity_threshold := 1 / 2 \<rparr>) [''Lead Management''] example_rows
             = Inr m1
           \<and> build_match (example_rows ! 0) ''Lead Management'' 1 ''Lead Management Lead Management''
               \<in> set m1)"
proof -
  have lt: "(1 / 2 :: real) < 1"
    by simp
  from threshold_antitone [OF lt example_result_at_one] example_result_at_one lt
  show ?thesis
    by auto
qed

section \<open>The category filter\<close>

lemma category_filter_bypass:
  assumes "cat = [] \<or> py_lower cat = ''all''"
  shows "category_filter re_compile df cat = Inr df"
  using assms by (auto simp: category_filter_def)

text \<open>
  Claim C9.  When \<open>software_category\<close> is the empty string, or is \<open>all\<close> in any
  letter casing, the category filter keeps the whole table without consulting the
  pattern search, and the matches of the main method are the matches of
  \<open>find_matching_features\<close> over every row of the table.
\<close>

theorem all_category_bypasses_filter:
  assumes "cat = [] \<or> py_lower cat = ''all''"
  shows "category_filter re_compile df cat = Inr df
     \<and> (df \<noteq> [] \<longrightarrow>
          (case filter_vendors_by_category_and_capabilities re_compile backend py_str self df cat caps of
             Inl e \<Rightarrow> Inl e
           | Inr results \<Rightarrow> Inr (raw_matches results))
          = (case find_matching_features backend py_str self caps df of
               Inl e \<Rightarrow> Inl e
             | Inr matches \<Rightarrow> Inr (Some matches)))"
proof -
  have keep: "category_filter re_compile df cat = Inr df"
    using assms by (rule category_filter_bypass)
  then show ?thesis
    by (simp add: filter_vendors_by_category_and_capabilities_def Let_def split: sum.splits)
qed

theorem all_category_bypasses_filter_witness:
  "py_lower ''ALL'' = ''all'' \<and> example_rows \<noteq> []
   \<and> category_filter (\<lambda>pat. Inl RegexError) example_rows ''ALL'' = Inr example_rows
   \<and> (case filter_vendors_by_category_and_capabilities (\<lambda>pat. Inl RegexError) example_backend
             example_str initial_matcher example_rows ''ALL'' [''Lead Management''] of
         Inl e \<Rightarrow> Inl e
       | Inr results \<Rightarrow> Inr (raw_matches results))
      = (case find_matching_features example_backend example_str initial_matcher
                [''Lead Management''] example_rows of
           Inl e \<Rightarrow> Inl e
         | Inr matches \<Rightarrow> Inr (Some matches))"
  using all_category_bypasses_filter [of "''ALL''" "\<lambda>pat. Inl RegexError" example_rows
      example_backend example_str initial_matcher "[''Lead Management'']"]
  by (simp add: py_lower_def lower_char_def example_rows_nth(5))

lemma match_here_prefix: "match_here pat cs \<longleftrightarrow> prefix (py_lower pat) (py_lower cs)"
  by (induction pat cs rule: match_here.induct) (simp_all add: py_lower_def)

lemma literal_search_substring: "literal_search pat cs \<longleftrightarrow> contains_ignoring_case pat cs"
proof (induction cs)
  case Nil
  show ?case
    by (simp add: match_here_prefix contains_ignoring_case_def py_lower_def)
next
  case (Cons c cs)
  have "literal_search pat (c # cs) \<longleftrightarrow>
          prefix (py_lower pat) (py_lower (c # cs)) \<or> contains_ignoring_case pat cs"
    by (simp add: match_here_prefix Cons.IH)
  then show ?case
    by (simp add: contains_ignoring_case_def py_lower_def)
qed

lemma select_rows_map: "select_rows df (map g df) = filter g df"
  by (induction df) (simp_all add: select_rows_def)

lemma str_accessor_ok:
  "list_ex (\<lambda>row. main_category row \<noteq> None) df \<Longrightarrow> \<not> str_accessor_fails (map main_category df)"
  by (auto simp: str_accessor_fails_def list_ex_iff filter_empty_conv)

lemma category_filter_literal:
  assumes "cat \<noteq> []" and "py_lower cat \<noteq> ''all''"
    and "\<not> list_ex regex_special cat"
    and "list_ex (\<lambda>row. main_category row \<noteq> None) df"
  shows "category_filter re_compile df cat =
           Inr (filter (\<lambda>row. \<exists>c. main_category row = Some c \<and> contains_ignoring_case cat c) df)"
proof -
  let ?test = "\<lambda>cell. case cell of None \<Rightarrow> False | Some c \<Rightarrow> literal_search cat c"
  have flags: "str_contains re_compile cat (map main_category df)
                = Inr (map (\<lambda>row. ?test (main_category row)) df)"
    using assms(3) str_accessor_ok [OF assms(4)]
    by (simp add: str_contains_def compile_ignorecase_def comp_def)
  have pred: "?test (main_category row)
      \<longleftrightarrow> (\<exists>c. main_category row = Some c \<and> contains_ignoring_case cat c)" for row :: feature_row
    by (simp add: literal_search_substring split: option.splits)
  have "category_filter re_compile df cat
          = Inr (select_rows df (map (\<lambda>row. ?test (main_category row)) df))"
    using assms(1,2) by (simp add: category_filter_def flags)
  then show ?thesis
    by (simp only: select_rows_map pred)
qed

text \<open>
  Claim C6 as stated fails: for the category \<open>all\<close> the row with the main category
  \<open>CRM Software\<close> is kept, though \<open>all\<close> does not occur in it.
\<close>

theorem category_substring_counterexample:
  "category_filter example_compiler example_rows ''all'' = Inr example_rows
   \<and> example_row ''A'' ''CRM Software'' ''Lead Management'' \<in> set example_rows
   \<and> main_category (example_row ''A'' ''CRM Software'' ''Lead Management'') = Some ''CRM Software''
   \<and> \<not> contains_ignoring_case ''all'' ''CRM Software''"
  by (simp add: category_filter_def py_lower_def lower_char_def example_rows_def example_row_def
      contains_ignoring_case_def)

text \<open>
  Claim C6, amended.  The category filter runs before the similarity computation:
  the matches of the main method are those of \<open>find_matching_features\<close> over the
  kept rows alone.  When \<open>software_category\<close> is not empty, is not \<open>all\<close> in any
  letter casing and has no character that is special in a regular expression, and
  some row of the table has a \<open>main_category\<close>, a row is kept if and only if its
  \<open>main_category\<close> is present and contains \<open>software_category\<close> as a substring,
  ignoring case; the kept rows stay in their order.
\<close>

theorem category_filter_substring:
  assumes "cat \<noteq> []" and "py_lower cat \<noteq> ''all''"
    and "\<not> list_ex regex_special cat"
    and "list_ex (\<lambda>row. main_category row \<noteq> None) df"
  shows "\<exists>kept. category_filter re_compile df cat = Inr kept
     \<and> kept = filter (\<lambda>row. \<exists>c. main_category row = Some c \<and> contains_ignoring_case cat c) df
     \<and> (\<forall>row \<in> set df. row \<in> set kept \<longleftrightarrow>
           (\<exists>c. main_category row = Some c \<and> contains_ignoring_case cat c))
     \<and> (case filter_vendors_by_category_and_capabilities re_compile backend py_str self df cat caps of
           Inl e \<Rightarrow> Inl e
         | Inr results \<Rightarrow> Inr (raw_matches results))
        = (if kept = [] then Inr None
           else (case find_matching_features backend py_str self caps kept of
                   Inl e \<Rightarrow> Inl e
                 | Inr matches \<Rightarrow> Inr (Some matches)))"
proof -
  let ?kept = "filter (\<lambda>row. \<exists>c. main_category row = Some c \<and> contains_ignoring_case cat c) df"
  have keep: "category_filter re_compile df cat = Inr ?kept"
    using assms by (rule category_filter_literal)
  have mem: "\<forall>row \<in> set df. row \<in> set ?kept \<longleftrightarrow>
           (\<exists>c. main_category row = Some c \<and> contains_ignoring_case cat c)"
    by simp
  have main: "(case filter_vendors_by_category_and_capabilities re_compile backend py_str self df cat caps of
           Inl e \<Rightarrow> Inl e
         | Inr results \<Rightarrow> Inr (raw_matches results))
        = (if ?kept = [] then Inr None
           else (case find_matching_features backend py_str self caps ?kept of
                   Inl e \<Rightarrow> Inl e
                 | Inr matches \<Rightarrow> Inr (Some matches)))"
    by (simp add: filter_vendors_by_category_and_capabilities_def keep Let_def split: sum.splits)
  from keep mem main show ?thesis
    by blast
qed

lemma example_category_facts:
  "''crm'' \<noteq> []" "py_lower ''crm'' \<noteq> ''all''" "\<not> list_ex regex_special ''crm''"
  "list_ex (\<lambda>row. main_category row \<noteq> None) example_rows"
  by (simp_all add: py_lower_def lower_char_def regex_special_def example_rows_def example_row_def)


theorem category_filter_substring_witness:
  "''crm'' \<noteq> [] \<and> py_lower ''crm'' \<noteq> ''all'' \<and> \<not> list_ex regex_special ''crm''
   \<and> list_ex (\<lambda>row. main_category row \<noteq> None) example_rows
   \<and> category_filter example_compiler example_rows ''crm''
       = Inr [example_row ''A'' ''CRM Software'' ''Lead Management'',
              example_row ''A'' ''CRM Software'' ''Lead Scoring'']
   \<and> category_filter example_compiler uncategorised_rows ''crm'' = Inl AttributeError"
proof -
  have err: "category_filter example_compiler uncategorised_rows ''crm'' = Inl AttributeError"
    by (simp add: category_filter_def str_contains_def str_accessor_fails_def
        uncategorised_rows_def py_lower_def lower_char_def)
  from category_filter_substring [where cat = "''crm''" and re_compile = example_compiler
      and df = example_rows, OF example_category_facts] example_category_facts err
  show ?thesis
    by (simp add: example_rows_def example_row_def contains_ignoring_case_def py_lower_def
        lower_char_def)
qed

section \<open>The catalog flattener\<close>

lemma preprocess_data_rows:
  assumes "\<exists>p \<in> set df. notna (safe_json_parse json_loads (Features p))"
  shows "preprocess_data json_loads df =
           concat (map (\<lambda>p. concat (map (group_rows p)
                                      (explode_cell (safe_json_parse json_loads (Features p)))))
                     (filter (\<lambda>p. notna (safe_json_parse json_loads (Features p))) df))"
proof -
  let ?parse = "\<lambda>p. safe_json_parse json_loads (Features p)"
  have f: "filter (\<lambda>(p, f). notna f) (map (\<lambda>p. (p, ?parse p)) df)
             = map (\<lambda>p. (p, ?parse p)) (filter (\<lambda>p. notna (?parse p)) df)"
    by (induction df) auto
  from assms have ne: "filter (\<lambda>p. notna (?parse p)) df \<noteq> []"
    by (simp add: filter_empty_conv)
  show ?thesis
    unfolding preprocess_data_def Let_def f using ne by (simp add: comp_def)
qed

text \<open>
  Claim C7 as stated fails: a product whose only feature group has an empty feature
  list is flattened to one row, not to none.
\<close>

theorem empty_group_counterexample:
  "preprocess_data empty_group_loads [example_product]
   = [make_row example_product (PStr ''Reports'') (PStr []) (PStr []) (PNum 0) (PNum 0)]"
  by (simp add: preprocess_data_def safe_json_parse_def notna_def example_product_def
      group_rows_def get_or_def feature_row_of_def empty_group_loads_def empty_group_document_def)

text \<open>
  Claim C7, amended.  A feature group whose \<open>features\<close> entry is a non-empty list
  yields exactly one flattened row per element of the list, in order.  A feature
  group whose list is empty or missing yields exactly one flattened row, with an
  empty feature name and description and zero percent and review count.  The rows of
  a product with a non-empty list of groups are the rows of its groups, one group
  after the other.
\<close>

theorem group_rows_per_feature:
  "(get_or g ''features'' (PList []) = PList fs \<and> fs \<noteq> [] \<longrightarrow>
      group_rows p g = map (feature_row_of p (get_or g ''Category'' PNone)) fs
      \<and> length (group_rows p g) = length fs)
   \<and> (get_or g ''features'' (PList []) = PList [] \<longrightarrow>
        group_rows p g
          = [make_row p (get_or g ''Category'' PNone) (PStr []) (PStr []) (PNum 0) (PNum 0)])
   \<and> (safe_json_parse json_loads (Features q) = PList gs \<and> gs \<noteq> [] \<longrightarrow>
        preprocess_data json_loads [q] = concat (map (group_rows q) gs))"
proof (intro conjI impI)
  assume "get_or g ''features'' (PList []) = PList fs \<and> fs \<noteq> []"
  then show "group_rows p g = map (feature_row_of p (get_or g ''Category'' PNone)) fs"
    by (simp add: group_rows_def)
  then show "length (group_rows p g) = length fs"
    by simp
next
  assume "get_or g ''features'' (PList []) = PList []"
  then show "group_rows p g
          = [make_row p (get_or g ''Category'' PNone) (PStr []) (PStr []) (PNum 0) (PNum 0)]"
    by (simp add: group_rows_def feature_row_of_def get_or_def)
next
  assume a: "safe_json_parse json_loads (Features q) = PList gs \<and> gs \<noteq> []"
  then have "\<exists>p \<in> set [q]. notna (safe_json_parse json_loads (Features p))"
    by (simp add: notna_def)
  from preprocess_data_rows [OF this] a
  show "preprocess_data json_loads [q] = concat (map (group_rows q) gs)"
    by (simp add: notna_def)
qed

theorem group_rows_per_feature_witness:
  "map (\<lambda>row. (Features_Category row, Feature_name row, Feature_percent row))
     (preprocess_data (\<lambda>s. Some (PList example_groups)) [example_product])
   = [(PStr ''Sales'', PStr ''Lead Management'', PNum 90),
      (PStr ''Sales'', PStr ''Lead Scoring'', PNum 0),
      (PStr ''Reports'', PStr [], PNum 0),
      (PStr ''Mobile'', PStr [], PNum 0)]"
proof -
  have parse: "safe_json_parse (\<lambda>s. Some (PList example_groups)) (Features example_product)
                 = PList example_groups \<and> example_groups \<noteq> []"
    by (simp add: safe_json_parse_def example_product_def example_groups_def)
  have g0: "get_or (example_groups ! 0) ''features'' (PList [])
      = PList [PDict [(''name'', PStr ''Lead Management''), (''description'', PStr ''Track leads''),
                      (''percent'', PNum 90), (''review'', PNum 12)],
               PDict [(''name'', PStr ''Lead Scoring'')]]
      \<and> [PDict [(''name'', PStr ''Lead Management''), (''description'', PStr ''Track leads''),
                 (''percent'', PNum 90), (''review'', PNum 12)],
          PDict [(''name'', PStr ''Lead Scoring'')]] \<noteq> []"
    by (simp add: example_groups_def get_or_def)
  have g1: "get_or (example_groups ! 1) ''features'' (PList []) = PList []"
    by (simp add: example_groups_def get_or_def)
  have g2: "get_or (example_groups ! 2) ''features'' (PList []) = PList []"
    by (simp add: example_groups_def get_or_def)
  have groups: "example_groups = [example_groups ! 0, example_groups ! 1, example_groups ! 2]"
    by (simp add: example_groups_def)
  note t = group_rows_per_feature [where json_loads = "\<lambda>s. Some (PList example_groups)"
      and q = example_product and gs = example_groups and p = example_product]
  from t [where g = "example_groups ! 0"] g0
  have r0: "group_rows example_product (example_groups ! 0)
      = map (feature_row_of example_product (get_or (example_groups ! 0) ''Category'' PNone))
          [PDict [(''name'', PStr ''Lead Management''), (''description'', PStr ''Track leads''),
                      (''percent'', PNum 90), (''review'', PNum 12)],
               PDict [(''name'', PStr ''Lead Scoring'')]]"
    by blast
  from t [where g = "example_groups ! 1" and fs = "[]"] g1
  have r1: "group_rows example_product (example_groups ! 1)
      = [make_row example_product (get_or (example_groups ! 1) ''Category'' PNone)
           (PStr []) (PStr []) (PNum 0) (PNum 0)]"
    by blast
  from t [where g = "example_groups ! 2" and fs = "[]"] g2
  have r2: "group_rows example_product (example_groups ! 2)
      = [make_row example_product (get_or (example_groups ! 2) ''Category'' PNone)
           (PStr []) (PStr []) (PNum 0) (PNum 0)]"
    by blast
  from t [where g = "example_groups ! 0" and fs = "[]"] parse
  have all: "preprocess_data (\<lambda>s. Some (PList example_groups)) [example_product]
      = concat (map (group_rows example_product) example_groups)"
    by blast
  have "preprocess_data (\<lambda>s. Some (PList example_groups)) [example_product]
      = group_rows example_product (example_groups ! 0)
        @ group_rows example_product (example_groups ! 1)
        @ group_rows example_product (example_groups ! 2)"
    by (subst all, subst groups) simp
  then show ?thesis
    unfolding r0 r1 r2
    by (simp add: example_groups_def feature_row_of_def make_row_def get_or_def)
qed

section \<open>The request handler\<close>














end
